theory Spec2Isabelle
  imports Complex_Main "HOL-Library.Sublist" "HOL-Library.AList"
begin

section \<open>Python values of the executor\<close>

text \<open>
  A path is kept in parsed form, as the list of its components; an absolute path
  starts with the component \<open>''/''\<close>, as the parts of a \<open>pathlib\<close> path do. Paths hold
  no \<open>..\<close> component and the file system has no symbolic links.

  The executables of an \<open>Executor\<close> are either the raw \<open>source\<close> argument or a
  \<open>Path\<close> object; Python never finds a \<open>str\<close> equal to a \<open>Path\<close>, which the two
  constructors of \<open>pathlike\<close> keep apart.
\<close>

type_synonym path = "string list"

datatype pathlike = Str string | PathObj path

datatype error =
    KeyError string
  | ValueError string
  | NameError string
  | AttributeError string
  | TypeError string
  | IndexError string
  | FileNotFoundError path
  | FileExistsError path
  | NotADirectoryError path
  | IsADirectoryError path
  | SameFileError path
  | HelperError string

text \<open>\<open>s.split(c)\<close> for a one-character separator.\<close>

fun split_on :: "char \<Rightarrow> string \<Rightarrow> string list" where
  "split_on c [] = [[]]"
| "split_on c (x # xs) =
     (if x = c then [] # split_on c xs
      else (case split_on c xs of [] \<Rightarrow> [[x]] | w # ws \<Rightarrow> (x # w) # ws))"

text \<open>The parts of \<open>Path(s)\<close>: empty and \<open>.\<close> components are dropped.\<close>

definition parts :: "string \<Rightarrow> path" where
  "parts s =
     (if prefix ''/'' s then [''/''] else []) @
     filter (\<lambda>w. w \<noteq> [] \<and> w \<noteq> ''.'') (split_on (CHR ''/'') s)"

text \<open>\<open>Path(x)\<close> for a string or a path object.\<close>

definition Path :: "pathlike \<Rightarrow> path" where
  "Path x = (case x of Str s \<Rightarrow> parts s | PathObj p \<Rightarrow> p)"

text \<open>\<open>os.path.join(p, n1, ..., nk)\<close> for relative components \<open>n1 ... nk\<close>.\<close>

definition path_join :: "path \<Rightarrow> string list \<Rightarrow> path" where
  "path_join p names = p @ names"

definition endswith :: "string \<Rightarrow> string \<Rightarrow> bool" where
  "endswith s suf = suffix suf s"

text \<open>\<open>str(n)\<close> for a natural number and \<open>s.rjust(w)\<close>.\<close>

fun str_nat :: "nat \<Rightarrow> string" where
  "str_nat n = (if n < 10 then [''0123456789'' ! n] else str_nat (n div 10) @ [''0123456789'' ! (n mod 10)])"

declare str_nat.simps [simp del]

definition rjust :: "string \<Rightarrow> nat \<Rightarrow> string" where
  "rjust s w = replicate (w - length s) (CHR '' '') @ s"

text \<open>\<open>xs.index(x)\<close>, \<open>None\<close> where Python raises \<open>ValueError\<close>.\<close>

fun index_of :: "'a list \<Rightarrow> 'a \<Rightarrow> nat option" where
  "index_of [] x = None"
| "index_of (y # ys) x = (if y = x then Some 0 else map_option Suc (index_of ys x))"

text \<open>
  \<open>s.lower()\<close> on the ASCII letters. No string with a character outside ASCII is
  lowered to \<open>gnu\<close> or \<open>intel\<close>, the only values the executor compares the result with.
\<close>

definition lower_char :: "char \<Rightarrow> char" where
  "lower_char c =
     (case map_of (zip ''ABCDEFGHIJKLMNOPQRSTUVWXYZ'' ''abcdefghijklmnopqrstuvwxyz'') c of
        None \<Rightarrow> c
      | Some l \<Rightarrow> l)"

definition lower :: "string \<Rightarrow> string" where
  "lower s = map lower_char s"

section \<open>The case catalogue\<close>

datatype category = Regression | Linear | Beamdyn

definition SYSTEM_MAP :: "(string \<times> string) list" where
  "SYSTEM_MAP = [(''Darwin'', ''macos''), (''Linux'', ''linux''), (''Windows'', ''windows'')]"

definition CASE_MAP :: "(string \<times> category) list" where
  "CASE_MAP =
    [(''5MW_ITIBarge_DLL_WTurb_WavesIrr'', Regression),
     (''5MW_Land_BD_DLL_WTurb'', Regression),
     (''5MW_Land_BD_Linear'', Linear),
     (''5MW_Land_DLL_WTurb'', Regression),
     (''5MW_OC3Mnpl_DLL_WTurb_WavesIrr'', Regression),
     (''5MW_OC3Spar_DLL_WTurb_WavesIrr'', Regression),
     (''5MW_OC3Trpd_DLL_WSt_WavesReg'', Regression),
     (''5MW_OC4Jckt_DLL_WTurb_WavesIrr_MGrowth'', Regression),
     (''5MW_OC4Semi_WSt_WavesWN'', Regression),
     (''5MW_TLP_DLL_WTurb_WavesIrr_WavesMulti'', Regression),
     (''AOC_WSt'', Regression),
     (''AOC_YFix_WSt'', Regression),
     (''AOC_YFree_WTurb'', Regression),
     (''AWT_WSt_StartUpShutDown'', Regression),
     (''AWT_WSt_StartUp_HighSpShutDown'', Regression),
     (''AWT_YFix_WSt'', Regression),
     (''AWT_YFree_WSt'', Regression),
     (''AWT_YFree_WTurb'', Regression),
     (''Ideal_Beam_Fixed_Free_Linear'', Linear),
     (''Ideal_Beam_Free_Free_Linear'', Linear),
     (''SWRT_YFree_VS_EDC01'', Regression),
     (''SWRT_YFree_VS_EDG01'', Regression),
     (''SWRT_YFree_VS_WTurb'', Regression),
     (''UAE_Dnwind_YRamp_WSt'', Regression),
     (''UAE_Upwind_Rigid_WRamp_PwrCurve'', Regression),
     (''WP_Stationary_Linear'', Linear),
     (''WP_VSP_ECD'', Regression),
     (''WP_VSP_WTurb'', Regression),
     (''WP_VSP_WTurb_PitchFail'', Regression),
     (''bd_5MW_dynamic'', Beamdyn),
     (''bd_5MW_dynamic_gravity_Az00'', Beamdyn),
     (''bd_5MW_dynamic_gravity_Az90'', Beamdyn),
     (''bd_curved_beam'', Beamdyn),
     (''bd_isotropic_rollup'', Beamdyn),
     (''bd_static_cantilever_beam'', Beamdyn),
     (''bd_static_twisted_with_k1'', Beamdyn)]"

text \<open>\<open>CASE_MAP[c]\<close>, a \<open>KeyError\<close> for a name that is not a key.\<close>

definition case_category :: "string \<Rightarrow> error + category" where
  "case_category c = (case map_of CASE_MAP c of None \<Rightarrow> Inl (KeyError c) | Some t \<Rightarrow> Inr t)"

section \<open>The file system\<close>

text \<open>
  A file system is a tree: a regular file with its contents, or a directory with its
  entries by name. \<open>lookup\<close> follows a path of names from a node; \<open>resolve\<close> makes a
  path absolute against the working directory and drops the root marker.
\<close>

datatype node = File string | Dir "(string \<times> node) list"

fun lookup :: "node \<Rightarrow> path \<Rightarrow> node option" where
  "lookup n [] = Some n"
| "lookup (File c) (x # p) = None"
| "lookup (Dir es) (x # p) = (case map_of es x of None \<Rightarrow> None | Some n \<Rightarrow> lookup n p)"

definition resolve :: "path \<Rightarrow> path \<Rightarrow> path" where
  "resolve wd p = (case p of [] \<Rightarrow> wd | x # r \<Rightarrow> if x = ''/'' then r else wd @ p)"

text \<open>
  \<open>put\<close> writes a node at a path whose parent is an existing directory, replacing
  what is there or adding an entry; \<open>ensure_dirs\<close> creates the directories missing
  along a path and fails where a regular file is in the way.
\<close>

fun put :: "node \<Rightarrow> path \<Rightarrow> node \<Rightarrow> node option" where
  "put n [] v = Some v"
| "put (File c) (x # p) v = None"
| "put (Dir es) (x # p) v =
     (if p = [] then Some (Dir (AList.update x v es))
      else (case map_of es x of
              None \<Rightarrow> None
            | Some n \<Rightarrow>
                (case put n p v of
                   None \<Rightarrow> None
                 | Some n' \<Rightarrow> Some (Dir (AList.update x n' es)))))"

fun ensure_dirs :: "node \<Rightarrow> path \<Rightarrow> node option" where
  "ensure_dirs (File c) p = None"
| "ensure_dirs (Dir es) [] = Some (Dir es)"
| "ensure_dirs (Dir es) (x # p) =
     (case ensure_dirs (case map_of es x of None \<Rightarrow> Dir [] | Some n \<Rightarrow> n) p of
        None \<Rightarrow> None
      | Some n' \<Rightarrow> Some (Dir (AList.update x n' es)))"

text \<open>
  The copy \<open>shutil.copytree\<close> makes of a tree: at every directory the callback
  \<open>ignore(directory, names)\<close> names the entries to leave out.
\<close>

fun copy_node :: "(path \<Rightarrow> string list \<Rightarrow> string list) \<Rightarrow> path \<Rightarrow> node \<Rightarrow> node" where
  "copy_node ign p (File c) = File c"
| "copy_node ign p (Dir es) =
     Dir (map (\<lambda>nc. (fst nc, copy_node ign (p @ [fst nc]) (snd nc)))
            (filter (\<lambda>nc. fst nc \<notin> set (ign p (map fst es))) es))"

text \<open>
  A file-system operation ends normally with the new file system, or raises and
  leaves the file system as far as it got.
\<close>

datatype outcome = Done node | Raised error node

definition then_do :: "outcome \<Rightarrow> (node \<Rightarrow> outcome) \<Rightarrow> outcome" where
  "then_do r f = (case r of Done fs \<Rightarrow> f fs | Raised err fs \<Rightarrow> Raised err fs)"

fun for_each :: "('a \<Rightarrow> node \<Rightarrow> outcome) \<Rightarrow> 'a list \<Rightarrow> node \<Rightarrow> outcome" where
  "for_each f [] fs = Done fs"
| "for_each f (x # xs) fs = then_do (f x fs) (for_each f xs)"

section \<open>The environment\<close>

text \<open>
  The helpers of \<open>pyfast.utilities\<close> are imported by the executor and are not part of
  the sources at hand, so they are parameters, as are the host's processor count, its
  platform name and the working directory of the process. A validator returns the
  exception it raises, if any.
\<close>

record ('d, 'i) env =
  cpu_count :: nat
  platform_system :: string
  getcwd :: path
  validate_file :: "node \<Rightarrow> path \<Rightarrow> error option"
  validate_directory :: "node \<Rightarrow> path \<Rightarrow> error option"
  validate_executable :: "node \<Rightarrow> pathlike \<Rightarrow> error option"
  ignore_baseline :: "path \<Rightarrow> string list \<Rightarrow> string list"
  load_output :: "node \<Rightarrow> path \<Rightarrow> error + 'd \<times> 'i"
  run_openfast_case :: "pathlike \<Rightarrow> path \<Rightarrow> string \<Rightarrow> string \<Rightarrow> bool \<Rightarrow> bool \<Rightarrow> error + int"

section \<open>The executor and its constructor\<close>

datatype case_arg = CaseName string | CaseList "string list"

record args =
  case_arg :: case_arg
  executable_arg :: "string list"
  source_arg :: pathlike
  compiler_arg :: string
  system_arg :: "string option"
  plot_arg :: int
  plot_path_arg :: "string option"
  execution_arg :: bool
  verbose_arg :: bool
  jobs_arg :: int

text \<open>
  The attributes \<open>inputs\<close>, \<open>outputs\<close> and \<open>test_build\<close> do not exist before \<open>run\<close>
  has built them. The tolerance is stored by the constructor and read by none of the
  methods below.
\<close>

record Executor =
  case' :: "string list"
  compiler :: string
  output_type :: string
  source :: path
  build :: path
  verbose :: bool
  execution :: bool
  plot :: int
  plot_path :: "string option"
  jobs :: int
  rtest :: path
  module :: path
  of_executable :: pathlike
  bd_executable :: pathlike
  inputs :: "path list option"
  outputs :: "path list option"
  test_build :: "path list option"

text \<open>The loop over \<open>executable\<close> in the constructor, from the two defaults.\<close>

fun select_executables :: "pathlike \<Rightarrow> pathlike \<Rightarrow> string list \<Rightarrow> pathlike \<times> pathlike" where
  "select_executables ofe bde [] = (ofe, bde)"
| "select_executables ofe bde (exe # rest) =
     (if endswith exe ''openfast'' then select_executables (PathObj (parts exe)) bde rest
      else if endswith exe ''beamdyn_driver'' then select_executables ofe (PathObj (parts exe)) rest
      else select_executables ofe bde rest)"

text \<open>
  \<open>int(np.ceil(cpu_count() * 0.8))\<close>. The double nearest to 0.8 exceeds it by a
  relative \<open>2^-54\<close>, and the rounded product of a processor count with it is the
  integer \<open>4n/5\<close> whenever that is one, so the result is the ceiling of the exact product.
\<close>

definition default_jobs :: "nat \<Rightarrow> int" where
  "default_jobs n = \<lceil>real n * 0.8\<rceil>"

definition output_types :: "string list" where
  "output_types = [''macos-gnu'', ''linux-intel'', ''linux-gnu'', ''windows-intel'']"

text \<open>
  \<open>Executor._validate_inputs\<close>, in three parts: the checks that raise, in the order of
  the method, with the exception of the first that fails; the resolution of the job
  count (the last four statements); and the method, with the lines it prints.
\<close>

definition input_error :: "('d, 'i) env \<Rightarrow> node \<Rightarrow> Executor \<Rightarrow> error option" where
  "input_error e fs ex =
     (case (if bd_executable ex \<noteq> PathObj (source ex)
            then validate_executable e fs (bd_executable ex) else None) of
        Some err \<Rightarrow> Some err
      | None \<Rightarrow>
          (case (if of_executable ex \<noteq> PathObj (source ex)
                 then validate_executable e fs (of_executable ex) else None) of
             Some err \<Rightarrow> Some err
           | None \<Rightarrow>
               (case validate_directory e fs (build ex) of
                  Some err \<Rightarrow> Some err
                | None \<Rightarrow>
                    if plot ex \<notin> {0, 1, 2}
                    then Some (ValueError ''Input 'plot' must be one of (0, 1, 2)!'')
                    else if jobs ex < - 1
                    then Some (ValueError ''Input 'jobs' cannot be negative!'')
                    else None)))"

definition resolve_jobs :: "nat \<Rightarrow> nat \<Rightarrow> int \<Rightarrow> int" where
  "resolve_jobs cpus n_cases requested =
     (let j1 = (if requested = - 1 then default_jobs cpus else requested);
          j2 = (if j1 > 0 then min j1 (int cpus) else j1)
      in if j2 > int n_cases then int n_cases else j2)"

definition validate_inputs ::
  "('d, 'i) env \<Rightarrow> node \<Rightarrow> Executor \<Rightarrow> string list \<times> (error + Executor)" where
  "validate_inputs e fs ex =
     (let fallback = output_type ex \<notin> set output_types;
          ex1 = (if fallback then ex\<lparr>output_type := ''macos-gnu''\<rparr> else ex);
          printed = (if fallback then [''Defaulting to '' @ output_type ex1 @ '' for output type'']
                     else [])
      in (printed,
          case input_error e fs ex1 of
            Some err \<Rightarrow> Inl err
          | None \<Rightarrow>
              Inr (ex1\<lparr>jobs := resolve_jobs (cpu_count e) (length (case' ex1)) (jobs ex1)\<rparr>)))"

text \<open>The case list of the constructor: \<open>all\<close>, a list of names, or one name.\<close>

definition expand_case :: "case_arg \<Rightarrow> string list" where
  "expand_case c =
     (case c of
        CaseName n \<Rightarrow> if n = ''all'' then map fst CASE_MAP else [n]
      | CaseList cs \<Rightarrow> cs)"

text \<open>
  \<open>Executor.__init__\<close>: the attributes it assigns, given the system name found in
  \<open>SYSTEM_MAP\<close>, and the constructor itself.
\<close>

definition init_attributes :: "string \<Rightarrow> args \<Rightarrow> Executor" where
  "init_attributes system a =
     (let src = Path (source_arg a);
          rt = path_join src [''reg_tests'', ''r-test''];
          exes = select_executables (source_arg a) (source_arg a) (executable_arg a)
      in \<lparr> case' = expand_case (case_arg a),
           compiler = compiler_arg a,
           output_type = system @ ''-'' @ lower (compiler_arg a),
           source = src,
           build = path_join src [''build''],
           verbose = verbose_arg a,
           execution = execution_arg a,
           plot = plot_arg a,
           plot_path = plot_path_arg a,
           jobs = (if jobs_arg a \<noteq> 0 then jobs_arg a else - 1),
           rtest = rt,
           module = path_join rt [''glue-codes'', ''openfast''],
           of_executable = fst exes,
           bd_executable = snd exes,
           inputs = None,
           outputs = None,
           test_build = None \<rparr>)"

definition Executor_init ::
  "('d, 'i) env \<Rightarrow> node \<Rightarrow> args \<Rightarrow> string list \<times> (error + Executor)" where
  "Executor_init e fs a =
     (let key = (case system_arg a of None \<Rightarrow> platform_system e | Some s \<Rightarrow> s) in
      case map_of SYSTEM_MAP key of
        None \<Rightarrow> ([], Inl (KeyError key))
      | Some system \<Rightarrow> validate_inputs e fs (init_attributes system a))"

section \<open>Operating-system calls\<close>

text \<open>\<open>os.path.isdir\<close>, \<open>os.path.isfile\<close> and \<open>os.listdir\<close>.\<close>

definition isdir :: "('d, 'i) env \<Rightarrow> node \<Rightarrow> path \<Rightarrow> bool" where
  "isdir e fs p = (case lookup fs (resolve (getcwd e) p) of Some (Dir es) \<Rightarrow> True | _ \<Rightarrow> False)"

definition isfile :: "('d, 'i) env \<Rightarrow> node \<Rightarrow> path \<Rightarrow> bool" where
  "isfile e fs p = (case lookup fs (resolve (getcwd e) p) of Some (File c) \<Rightarrow> True | _ \<Rightarrow> False)"

definition listdir :: "('d, 'i) env \<Rightarrow> node \<Rightarrow> path \<Rightarrow> error + string list" where
  "listdir e fs p =
     (case lookup fs (resolve (getcwd e) p) of
        None \<Rightarrow> Inl (FileNotFoundError p)
      | Some (File c) \<Rightarrow> Inl (NotADirectoryError p)
      | Some (Dir es) \<Rightarrow> Inr (map fst es))"

text \<open>\<open>os.makedirs(p)\<close>: the path must not exist; missing ancestors are created.\<close>

definition makedirs :: "('d, 'i) env \<Rightarrow> path \<Rightarrow> node \<Rightarrow> outcome" where
  "makedirs e p fs =
     (case lookup fs (resolve (getcwd e) p) of
        Some n \<Rightarrow> Raised (FileExistsError p) fs
      | None \<Rightarrow>
          (case ensure_dirs fs (resolve (getcwd e) p) of
             None \<Rightarrow> Raised (NotADirectoryError p) fs
           | Some fs' \<Rightarrow> Done fs'))"

text \<open>
  \<open>shutil.copytree(src, dst, ignore=ign)\<close>: the source must be a directory and the
  destination must not exist; the destination and its missing ancestors are created.
\<close>

definition copytree ::
  "('d, 'i) env \<Rightarrow> (path \<Rightarrow> string list \<Rightarrow> string list) \<Rightarrow> path \<Rightarrow> path \<Rightarrow> node \<Rightarrow> outcome" where
  "copytree e ign src dst fs =
     (case lookup fs (resolve (getcwd e) src) of
        None \<Rightarrow> Raised (FileNotFoundError src) fs
      | Some (File c) \<Rightarrow> Raised (NotADirectoryError src) fs
      | Some (Dir es) \<Rightarrow>
          (case lookup fs (resolve (getcwd e) dst) of
             Some n \<Rightarrow> Raised (FileExistsError dst) fs
           | None \<Rightarrow>
               (case ensure_dirs fs (resolve (getcwd e) dst) of
                  None \<Rightarrow> Raised (NotADirectoryError dst) fs
                | Some fs1 \<Rightarrow>
                    (case put fs1 (resolve (getcwd e) dst) (copy_node ign src (Dir es)) of
                       None \<Rightarrow> Raised (NotADirectoryError dst) fs
                     | Some fs2 \<Rightarrow> Done fs2))))"

definition no_ignore :: "path \<Rightarrow> string list \<Rightarrow> string list" where
  "no_ignore p names = []"

text \<open>
  \<open>shutil.copy(src, dst)\<close> and \<open>shutil.copy2(src, dst)\<close>, which differ in the
  metadata they copy only: a destination that is a directory stands for the entry
  of the source's base name in it; the source must be a regular file other than the
  destination; an existing destination file is overwritten.
\<close>

definition copy_file :: "('d, 'i) env \<Rightarrow> path \<Rightarrow> path \<Rightarrow> node \<Rightarrow> outcome" where
  "copy_file e src dst fs =
     (let wd = getcwd e;
          dst' = (if isdir e fs dst \<and> src \<noteq> [] then path_join dst [last src] else dst)
      in case lookup fs (resolve wd src) of
           None \<Rightarrow> Raised (FileNotFoundError src) fs
         | Some (Dir es) \<Rightarrow>
             if resolve wd src = resolve wd dst' then Raised (SameFileError src) fs
             else Raised (IsADirectoryError src) fs
         | Some (File c) \<Rightarrow>
             if resolve wd src = resolve wd dst' then Raised (SameFileError src) fs
             else (case lookup fs (resolve wd dst') of
                     Some (Dir es) \<Rightarrow> Raised (IsADirectoryError dst') fs
                   | _ \<Rightarrow>
                       (case put fs (resolve wd dst') (File c) of
                          None \<Rightarrow> Raised (FileNotFoundError dst') fs
                        | Some fs' \<Rightarrow> Done fs')))"

section \<open>Directory references\<close>

text \<open>
  \<open>Executor._build_directory_references\<close>: the input, baseline and build directory
  of one case, and of all cases in order. The lists a failed call has built so far
  are not kept.
\<close>

definition case_references :: "Executor \<Rightarrow> string \<Rightarrow> error + path \<times> path \<times> path" where
  "case_references ex c =
     (case case_category c of
        Inl err \<Rightarrow> Inl err
      | Inr cat \<Rightarrow>
          let input = (if cat = Beamdyn then path_join (rtest ex) [''modules'', ''beamdyn'', c]
                       else path_join (module ex) [c])
          in Inr (input, path_join input [output_type ex],
                  path_join (build ex) [''local_results'', c]))"

fun all_references :: "Executor \<Rightarrow> string list \<Rightarrow> error + (path \<times> path \<times> path) list" where
  "all_references ex [] = Inr []"
| "all_references ex (c # cs) =
     (case case_references ex c of
        Inl err \<Rightarrow> Inl err
      | Inr r \<Rightarrow> (case all_references ex cs of Inl err \<Rightarrow> Inl err | Inr rs \<Rightarrow> Inr (r # rs)))"

definition build_directory_references :: "Executor \<Rightarrow> error + Executor" where
  "build_directory_references ex =
     (case all_references ex (case' ex) of
        Inl err \<Rightarrow> Inl err
      | Inr rs \<Rightarrow>
          Inr (ex\<lparr> inputs := Some (map fst rs),
                   outputs := Some (map (fst \<circ> snd) rs),
                   test_build := Some (map (snd \<circ> snd) rs) \<rparr>))"

section \<open>Materialization\<close>

text \<open>\<open>Executor._build_test_directory\<close>, for one pair of directories and for all.\<close>

definition build_test_directory_case ::
  "('d, 'i) env \<Rightarrow> path \<times> path \<Rightarrow> node \<Rightarrow> outcome" where
  "build_test_directory_case e dirs fs =
     (let input_dir = fst dirs; test_dir = snd dirs in
      if \<not> isdir e fs test_dir then copytree e (ignore_baseline e) input_dir test_dir fs
      else (case listdir e fs input_dir of
              Inl err \<Rightarrow> Raised err fs
            | Inr names \<Rightarrow>
                for_each
                  (\<lambda>f fs'. if isfile e fs' [f]
                            then copy_file e (path_join input_dir [f]) test_dir fs'
                            else Done fs')
                  names fs))"

definition build_test_directory :: "('d, 'i) env \<Rightarrow> Executor \<Rightarrow> node \<Rightarrow> outcome" where
  "build_test_directory e ex fs =
     (case inputs ex of
        None \<Rightarrow> Raised (AttributeError ''inputs'') fs
      | Some ins \<Rightarrow>
          (case test_build ex of
             None \<Rightarrow> Raised (AttributeError ''test_build'') fs
           | Some tbs \<Rightarrow> for_each (build_test_directory_case e) (zip ins tbs) fs))"

text \<open>\<open>Executor._build_beamdyn_output_directories\<close>.\<close>

definition build_beamdyn_case :: "('d, 'i) env \<Rightarrow> Executor \<Rightarrow> string \<Rightarrow> node \<Rightarrow> outcome" where
  "build_beamdyn_case e ex c fs =
     (case index_of (case' ex) c of
        None \<Rightarrow> Raised (ValueError c) fs
      | Some ix \<Rightarrow>
          (case inputs ex of
             None \<Rightarrow> Raised (AttributeError ''inputs'') fs
           | Some ins \<Rightarrow>
               if length ins \<le> ix then Raised (IndexError ''inputs'') fs
               else (case test_build ex of
                       None \<Rightarrow> Raised (AttributeError ''test_build'') fs
                     | Some tbs \<Rightarrow>
                         if length tbs \<le> ix then Raised (IndexError ''test_build'') fs
                         else for_each
                                (\<lambda>bd_file. copy_file e (path_join (ins ! ix) [bd_file]) (tbs ! ix))
                                [''bd_driver.inp'', ''bd_primary.inp'', ''beam_props.inp''] fs)))"

definition build_beamdyn_output_directories ::
  "('d, 'i) env \<Rightarrow> Executor \<Rightarrow> string list \<Rightarrow> node \<Rightarrow> outcome" where
  "build_beamdyn_output_directories e ex to_build fs = for_each (build_beamdyn_case e ex) to_build fs"

text \<open>\<open>Executor._check_5MW_dll_files\<close>.\<close>

definition check_5MW_dll_files :: "('d, 'i) env \<Rightarrow> Executor \<Rightarrow> node \<Rightarrow> outcome" where
  "check_5MW_dll_files e ex fs =
     (let source_dir = path_join (module ex) [''5MW_Baseline'', ''ServoData''];
          target_dir = path_join (build ex) [''local_results'', ''5MW_Baseline'', ''ServoData'']
      in then_do (if \<not> isdir e fs target_dir then makedirs e target_dir fs else Done fs)
           (for_each
              (\<lambda>f fs'.
                 let to_copy = path_join source_dir (split_on (CHR ''/'') f);
                     check = path_join target_dir [last (split_on (CHR ''/'') f)]
                 in if \<not> isfile e fs' check then copy_file e to_copy target_dir fs' else Done fs')
              [''DISCON/build/DISCON.dll'', ''DISCON_ITI/build/DISCON_ITIBarge.dll'',
               ''DISCON_OC3/build/DISCON_OC3Hywind.dll'']))"

text \<open>\<open>Executor._build_5MW_directories\<close>.\<close>

definition build_5MW_entry :: "('d, 'i) env \<Rightarrow> path \<Rightarrow> path \<Rightarrow> string \<Rightarrow> node \<Rightarrow> outcome" where
  "build_5MW_entry e source_dir target_dir name fs =
     (if name = ''ServoData'' then Done fs
      else if isdir e fs (path_join source_dir [name])
      then (if \<not> isdir e fs (path_join target_dir [name])
            then copytree e no_ignore (path_join source_dir [name]) (path_join target_dir [name]) fs
            else Done fs)
      else copy_file e (path_join source_dir [name]) (path_join target_dir [name]) fs)"

definition build_5MW_directories :: "('d, 'i) env \<Rightarrow> Executor \<Rightarrow> node \<Rightarrow> outcome" where
  "build_5MW_directories e ex fs =
     (let source_dir = path_join (module ex) [''5MW_Baseline''];
          target_dir = path_join (build ex) [''local_results'', ''5MW_Baseline'']
      in if \<not> isdir e fs target_dir then copytree e no_ignore source_dir target_dir fs
         else (case listdir e fs source_dir of
                 Inl err \<Rightarrow> Raised err fs
               | Inr names \<Rightarrow> for_each (build_5MW_entry e source_dir target_dir) names fs))"

text \<open>
  \<open>Executor._build_test_output_directories\<close>. The list of the cases with \<open>5MW\<close> in
  their name, which the method computes and never reads, is left out.
\<close>

fun categories :: "string list \<Rightarrow> error + category list" where
  "categories [] = Inr []"
| "categories (c # cs) =
     (case case_category c of
        Inl err \<Rightarrow> Inl err
      | Inr t \<Rightarrow> (case categories cs of Inl err \<Rightarrow> Inl err | Inr ts \<Rightarrow> Inr (t # ts)))"

definition build_fixture_directory :: "('d, 'i) env \<Rightarrow> Executor \<Rightarrow> string \<Rightarrow> node \<Rightarrow> outcome" where
  "build_fixture_directory e ex data fs =
     (let dir = path_join (build ex) [''local_results'', data] in
      if \<not> isdir e fs dir then copytree e no_ignore (path_join (module ex) [data]) dir fs
      else Done fs)"

definition build_test_output_directories :: "('d, 'i) env \<Rightarrow> Executor \<Rightarrow> node \<Rightarrow> outcome" where
  "build_test_output_directories e ex fs =
     (case categories (case' ex) of
        Inl err \<Rightarrow> Raised err fs
      | Inr case_types \<Rightarrow>
          let directories =
                (if Linear \<in> set case_types then [''Ideal_Beam'', ''WP_Baseline''] else []) @
                (if Regression \<in> set case_types
                 then [''AOC'', ''AWT27'', ''SWRT'', ''UAE_VI'', ''WP_Baseline''] else []);
              to_build_beamdyn =
                (if Beamdyn \<in> set case_types
                 then filter (\<lambda>c. case_category c = Inr Beamdyn) (case' ex) else [])
          in then_do (for_each (build_fixture_directory e ex) directories fs)
               (\<lambda>fs1. then_do (build_test_directory e ex fs1)
               (\<lambda>fs2. then_do (build_beamdyn_output_directories e ex to_build_beamdyn fs2)
               (\<lambda>fs3. then_do (check_5MW_dll_files e ex fs3)
               (build_5MW_directories e ex)))))"

section \<open>Dispatch\<close>

text \<open>\<open>Executor._run_single_case\<close>.\<close>

definition run_single_case ::
  "('d, 'i) env \<Rightarrow> Executor \<Rightarrow> string \<times> string \<times> path \<Rightarrow> error + int \<times> string \<times> string" where
  "run_single_case e ex arg =
     (let ix = fst arg; c = fst (snd arg); tb = snd (snd arg) in
      case case_category c of
        Inl err \<Rightarrow> Inl err
      | Inr cat \<Rightarrow>
          let beamdyn = (cat = Beamdyn);
              exe = (if beamdyn then bd_executable ex else of_executable ex);
              case_input = (if beamdyn then path_join tb [''bd_driver.inp'']
                            else path_join tb [c @ ''.fst''])
          in (case run_openfast_case e exe case_input ix c (verbose ex) beamdyn of
                Inl err \<Rightarrow> Inl err
              | Inr code \<Rightarrow> Inr (code, ix, c)))"

text \<open>
  \<open>pool.map(f, arguments)\<close>: the results in the order of the arguments, or the
  exception of a call that raised.
\<close>

fun pool_map :: "('a \<Rightarrow> error + 'b) \<Rightarrow> 'a list \<Rightarrow> error + 'b list" where
  "pool_map f [] = Inr []"
| "pool_map f (x # xs) =
     (case f x of
        Inl err \<Rightarrow> Inl err
      | Inr y \<Rightarrow> (case pool_map f xs of Inl err \<Rightarrow> Inl err | Inr ys \<Rightarrow> Inr (y # ys)))"

text \<open>
  The tally loop of \<open>Executor._run_openfast_cases\<close> over the results, with the entry
  it adds to the failure text for a case, and the ordinals \<open>i/n\<close> of a plan of n cases.
\<close>

definition fail_entry :: "string \<Rightarrow> string \<Rightarrow> string" where
  "fail_entry ix c = rjust (hd (split_on (CHR ''/'') ix)) 6 @ '': '' @ c"

fun tally :: "(int \<times> string \<times> string) list \<Rightarrow> string \<Rightarrow> nat \<Rightarrow> string \<times> nat" where
  "tally [] fail success = (fail, success)"
| "tally ((code, ix, c) # rs) fail success =
     (if code \<noteq> 0
      then tally rs (fail @ [CHR 0x0A] @ ''  '' @ fail_entry ix c) success
      else tally rs fail (success + 1))"

definition ordinals :: "nat \<Rightarrow> string list" where
  "ordinals n_cases = map (\<lambda>i. str_nat i @ ''/'' @ str_nat n_cases) [1..<n_cases + 1]"

text \<open>
  \<open>Pool(n)\<close>: the number of worker processes, a \<open>ValueError\<close> for a number below one.
\<close>

definition Pool :: "int \<Rightarrow> error + nat" where
  "Pool n = (if n < 1 then Inl (ValueError ''Number of processes must be at least 1'') else Inr (nat n))"

text \<open>
  \<open>Executor._run_openfast_cases\<close>: the size of the pool, the results of the pool and
  the lines printed.
\<close>

record dispatch =
  workers :: nat
  results :: "(int \<times> string \<times> string) list"
  printed :: "string list"

definition run_openfast_cases :: "('d, 'i) env \<Rightarrow> Executor \<Rightarrow> error + dispatch" where
  "run_openfast_cases e ex =
     (let n_cases = length (case' ex);
          ix = ordinals n_cases
      in case test_build ex of
           None \<Rightarrow> Inl (AttributeError ''test_build'')
         | Some tbs \<Rightarrow>
             let arguments = zip ix (zip (case' ex) tbs) in
             (case Pool (jobs ex) of
                Inl err \<Rightarrow> Inl err
              | Inr pool \<Rightarrow>
                  (case pool_map (run_single_case e ex) arguments of
                     Inl err \<Rightarrow> Inl err
                   | Inr rs \<Rightarrow>
                       let t = tally rs ''    Failed cases:'' 0;
                           fail = fst t; success = snd t
                       in Inr \<lparr> workers = pool,
                                results = rs,
                                printed =
                                  [[CHR 0x0A, CHR 0x0A] @ ''    '' @ str_nat success @ ''/'' @
                                     str_nat n_cases @ '' test cases passed''] @
                                  (if success \<noteq> n_cases then [[CHR 0x0A] @ fail] else []) \<rparr>)))"

text \<open>
  \<open>Executor.run\<close>: the outcome and the file system it leaves. What the external
  executables write is not part of the file system here.
\<close>

definition run ::
  "('d, 'i) env \<Rightarrow> Executor \<Rightarrow> node \<Rightarrow> (error + Executor \<times> dispatch option) \<times> node" where
  "run e ex fs =
     (case build_directory_references ex of
        Inl err \<Rightarrow> (Inl err, fs)
      | Inr ex' \<Rightarrow>
          if \<not> execution ex' then (Inr (ex', None), fs)
          else (case build_test_output_directories e ex' fs of
                  Raised err fs' \<Rightarrow> (Inl err, fs')
                | Done fs' \<Rightarrow>
                    (case run_openfast_cases e ex' of
                       Inl err \<Rightarrow> (Inl err, fs')
                     | Inr d \<Rightarrow> (Inr (ex', Some d), fs'))))"

section \<open>Reading the output files\<close>

text \<open>
  The handlers of \<open>FUNC_MAP\<close>, called as \<open>_func(case, out_dir, target)\<close>. The handler
  of the linear category is defined without parameters, so the call with three
  arguments raises \<open>TypeError\<close> before its body runs.
\<close>

definition get_linear_out_files :: "(path \<times> path) option" where
  "get_linear_out_files = None"

definition validate_both :: "('d, 'i) env \<Rightarrow> node \<Rightarrow> path \<Rightarrow> path \<Rightarrow> error + (path \<times> path) option" where
  "validate_both e fs local baseline =
     (case validate_file e fs local of
        Some err \<Rightarrow> Inl err
      | None \<Rightarrow>
          (case validate_file e fs baseline of
             Some err \<Rightarrow> Inl err
           | None \<Rightarrow> Inr (Some (local, baseline))))"

definition get_regression_out_files ::
  "('d, 'i) env \<Rightarrow> node \<Rightarrow> string \<Rightarrow> path \<Rightarrow> path \<Rightarrow> error + (path \<times> path) option" where
  "get_regression_out_files e fs c out_dir baseline_dir =
     (let case_file = c @ ''.outb'' in
      validate_both e fs (path_join out_dir [case_file]) (path_join baseline_dir [case_file]))"

definition get_beamdyn_out_files ::
  "('d, 'i) env \<Rightarrow> node \<Rightarrow> string \<Rightarrow> path \<Rightarrow> path \<Rightarrow> error + (path \<times> path) option" where
  "get_beamdyn_out_files e fs c out_dir baseline_dir =
     validate_both e fs (path_join out_dir [''bd_driver.out'']) (path_join baseline_dir [''bd_driver.out''])"

definition FUNC_MAP ::
  "category \<Rightarrow> ('d, 'i) env \<Rightarrow> node \<Rightarrow> string \<Rightarrow> path \<Rightarrow> path \<Rightarrow> error + (path \<times> path) option" where
  "FUNC_MAP cat e fs c out_dir target =
     (case cat of
        Linear \<Rightarrow> Inl (TypeError ''_get_linear_out_files() takes 0 positional arguments but 3 were given'')
      | Regression \<Rightarrow> get_regression_out_files e fs c out_dir target
      | Beamdyn \<Rightarrow> get_beamdyn_out_files e fs c out_dir target)"

text \<open>
  \<open>Executor.read_out_files\<close>: one pass of its loop, which raises, skips the case or
  yields the case with its test and baseline data; the loop; the method.
\<close>

definition read_case ::
  "('d, 'i) env \<Rightarrow> node \<Rightarrow> string \<times> path \<times> path \<Rightarrow>
     error + (string \<times> ('d \<times> 'i) \<times> ('d \<times> 'i)) option" where
  "read_case e fs arg =
     (let c = fst arg; out_dir = fst (snd arg); target = snd (snd arg) in
      case case_category c of
        Inl err \<Rightarrow> Inl err
      | Inr cat \<Rightarrow>
          (case FUNC_MAP cat e fs c out_dir target of
             Inl err \<Rightarrow> Inl err
           | Inr None \<Rightarrow> Inr None
           | Inr (Some (local, baseline)) \<Rightarrow>
               (case load_output e fs local of
                  Inl err \<Rightarrow> Inl err
                | Inr test \<Rightarrow>
                    (case load_output e fs baseline of
                       Inl err \<Rightarrow> Inl err
                     | Inr base \<Rightarrow> Inr (Some (c, test, base))))))"

fun read_loop ::
  "('d, 'i) env \<Rightarrow> node \<Rightarrow> (string \<times> path \<times> path) list \<Rightarrow>
     string list \<times> ('d \<times> 'i) list \<times> ('d \<times> 'i) list \<Rightarrow>
     error + string list \<times> ('d \<times> 'i) list \<times> ('d \<times> 'i) list" where
  "read_loop e fs [] acc = Inr acc"
| "read_loop e fs (arg # rest) (case_lst, baseline_lst, test_lst) =
     (case read_case e fs arg of
        Inl err \<Rightarrow> Inl err
      | Inr None \<Rightarrow> read_loop e fs rest (case_lst, baseline_lst, test_lst)
      | Inr (Some (c, test, base)) \<Rightarrow>
          read_loop e fs rest (case_lst @ [c], baseline_lst @ [base], test_lst @ [test]))"

definition read_out_files ::
  "('d, 'i) env \<Rightarrow> node \<Rightarrow> Executor \<Rightarrow>
     error + string list \<times> ('d \<times> 'i) list \<times> ('d \<times> 'i) list" where
  "read_out_files e fs ex =
     (case test_build ex of
        None \<Rightarrow> Inl (AttributeError ''test_build'')
      | Some tbs \<Rightarrow>
          (case outputs ex of
             None \<Rightarrow> Inl (AttributeError ''outputs'')
           | Some outs \<Rightarrow> read_loop e fs (zip (case' ex) (zip tbs outs)) ([], [], [])))"

section \<open>Norms\<close>

text \<open>
  \<open>Executor.test_norm\<close>, a static method. Its loop body calls
  \<open>calculate_norms(baseline, test, norm_list)\<close>; the names \<open>baseline\<close> and \<open>test\<close> are
  bound neither in the method nor in the module, so evaluating the first argument
  raises \<open>NameError\<close> in the first iteration.
\<close>

fun test_norm_loop :: "string list \<Rightarrow> 'n list \<Rightarrow> error + 'n list" where
  "test_norm_loop [] norm_results = Inr norm_results"
| "test_norm_loop (c # rest) norm_results = Inl (NameError ''baseline'')"

definition test_norm ::
  "string list \<Rightarrow> ('d \<times> 'i) list \<Rightarrow> ('d \<times> 'i) list \<Rightarrow> string list \<Rightarrow> error + 'n list" where
  "test_norm case_lst baseline_lst test_lst norm_lst = test_norm_loop case_lst []"

section \<open>A host for the examples\<close>

text \<open>
  A host whose helpers accept what exists in the file system: a file is valid when it
  is a regular file, a directory when it is a directory, an executable when it is a
  regular file; the loader returns the contents of a regular file and no channel
  names; the baseline filter leaves out the four output-type directories; every
  external run exits with the code given for its case, zero by default.
\<close>

definition host :: "nat \<Rightarrow> (string \<times> int) list \<Rightarrow> (string, string list) env" where
  "host n codes =
     \<lparr> cpu_count = n,
       platform_system = ''Linux'',
       getcwd = [''home''],
       validate_file = (\<lambda>fs p. case lookup fs (resolve [''home''] p) of
                                 Some (File c) \<Rightarrow> None | _ \<Rightarrow> Some (FileNotFoundError p)),
       validate_directory = (\<lambda>fs p. case lookup fs (resolve [''home''] p) of
                                      Some (Dir es) \<Rightarrow> None | _ \<Rightarrow> Some (FileNotFoundError p)),
       validate_executable = (\<lambda>fs x. case lookup fs (resolve [''home''] (Path x)) of
                                       Some (File c) \<Rightarrow> None | _ \<Rightarrow> Some (FileNotFoundError (Path x))),
       ignore_baseline = (\<lambda>d names. filter (\<lambda>n. n \<in> set output_types) names),
       load_output = (\<lambda>fs p. case lookup fs (resolve [''home''] p) of
                               Some (File c) \<Rightarrow> Inr (c, []) | _ \<Rightarrow> Inl (FileNotFoundError p)),
       run_openfast_case = (\<lambda>exe input ix c v b. case map_of codes c of None \<Rightarrow> Inr 0 | Some k \<Rightarrow> Inr k) \<rparr>"

text \<open>
  A repository under \<open>/repo\<close> with the shared fixtures and the inputs of a regression
  case and of a beamdyn case, an empty build directory and three executables under
  \<open>/opt\<close>; and the arguments of a constructor call over it.
\<close>

definition example_glue :: "(string \<times> node) list" where
  "example_glue =
     [(''AOC'', Dir [(''blade.dat'', File ''blade'')]),
      (''AWT27'', Dir []),
      (''SWRT'', Dir []),
      (''UAE_VI'', Dir []),
      (''WP_Baseline'', Dir []),
      (''5MW_Baseline'',
       Dir [(''ServoData'',
             Dir [(''DISCON'', Dir [(''build'', Dir [(''DISCON.dll'', File ''dll1'')])]),
                  (''DISCON_ITI'', Dir [(''build'', Dir [(''DISCON_ITIBarge.dll'', File ''dll2'')])]),
                  (''DISCON_OC3'', Dir [(''build'', Dir [(''DISCON_OC3Hywind.dll'', File ''dll3'')])])]),
            (''tower.dat'', File ''tower''),
            (''Airfoils'', Dir [(''a1.dat'', File ''airfoil'')])]),
      (''AOC_WSt'',
       Dir [(''AOC_WSt.fst'', File ''fst''),
            (''macos-gnu'', Dir [(''AOC_WSt.outb'', File ''baseline'')])])]"

definition example_fs :: node where
  "example_fs =
     Dir [(''opt'', Dir [(''openfast'', File ''ELF''), (''beamdyn_driver'', File ''ELF''),
                         (''openfast.exe'', File ''PE'')]),
          (''home'', Dir []),
          (''repo'',
           Dir [(''build'', Dir []),
                (''reg_tests'',
                 Dir [(''r-test'',
                       Dir [(''glue-codes'', Dir [(''openfast'', Dir example_glue)]),
                            (''modules'',
                             Dir [(''beamdyn'',
                                   Dir [(''bd_curved_beam'',
                                         Dir [(''bd_driver.inp'', File ''drv''),
                                              (''bd_primary.inp'', File ''prim''),
                                              (''beam_props.inp'', File ''props''),
                                              (''macos-gnu'',
                                               Dir [(''bd_driver.out'', File ''bd baseline'')])])])])])])])]"

definition example_args :: "string list \<Rightarrow> int \<Rightarrow> args" where
  "example_args cs j =
     \<lparr> case_arg = CaseList cs,
       executable_arg = [''/opt/openfast'', ''/opt/beamdyn_driver''],
       source_arg = Str ''/repo'',
       compiler_arg = ''gnu'',
       system_arg = Some ''Windows'',
       plot_arg = 0,
       plot_path_arg = None,
       execution_arg = True,
       verbose_arg = False,
       jobs_arg = j \<rparr>"

text \<open>The executor the constructor builds over the example, by case list and job count.\<close>

definition example_executor :: "string list \<Rightarrow> int \<Rightarrow> Executor" where
  "example_executor cs j =
     \<lparr> case' = cs,
       compiler = ''gnu'',
       output_type = ''macos-gnu'',
       source = [''/'', ''repo''],
       build = [''/'', ''repo'', ''build''],
       verbose = False,
       execution = True,
       plot = 0,
       plot_path = None,
       jobs = j,
       rtest = [''/'', ''repo'', ''reg_tests'', ''r-test''],
       module = [''/'', ''repo'', ''reg_tests'', ''r-test'', ''glue-codes'', ''openfast''],
       of_executable = PathObj [''/'', ''opt'', ''openfast''],
       bd_executable = PathObj [''/'', ''opt'', ''beamdyn_driver''],
       inputs = None,
       outputs = None,
       test_build = None \<rparr>"

text \<open>
  The file system after a run in which the case \<open>AOC_WSt\<close> has written its output and
  the case \<open>bd_curved_beam\<close> has not; both baselines are in place.
\<close>

definition results_fs :: node where
  "results_fs =
     Dir [(''repo'',
           Dir [(''build'',
                 Dir [(''local_results'',
                       Dir [(''AOC_WSt'', Dir [(''AOC_WSt.fst'', File ''fst''),
                                               (''AOC_WSt.outb'', File ''output'')]),
                            (''bd_curved_beam'', Dir [(''bd_driver.inp'', File ''drv'')])])]),
                (''reg_tests'',
                 Dir [(''r-test'',
                       Dir [(''glue-codes'',
                             Dir [(''openfast'',
                                   Dir [(''AOC_WSt'',
                                         Dir [(''AOC_WSt.fst'', File ''fst''),
                                              (''macos-gnu'',
                                               Dir [(''AOC_WSt.outb'', File ''baseline'')])])])]),
                            (''modules'',
                             Dir [(''beamdyn'',
                                   Dir [(''bd_curved_beam'',
                                         Dir [(''bd_driver.inp'', File ''drv''),
                                              (''macos-gnu'',
                                               Dir [(''bd_driver.out'', File ''bd baseline'')])])])])])])])]"

text \<open>The example executor after \<open>run\<close> has built its directory references.\<close>

definition example_references :: "string list \<Rightarrow> int \<Rightarrow> Executor" where
  "example_references cs j =
     (case build_directory_references (example_executor cs j) of
        Inl err \<Rightarrow> example_executor cs j
      | Inr ex \<Rightarrow> ex)"

text \<open>The host of the examples with an external run that raises for one case.\<close>

definition failing_host :: "nat \<Rightarrow> string \<Rightarrow> (string, string list) env" where
  "failing_host n c =
     (host n [])\<lparr> run_openfast_case :=
       (\<lambda>exe input ix c' v b. if c' = c then Inl (HelperError ''run failed'') else Inr 0) \<rparr>"

text \<open>The executor a successful validation returns.\<close>

definition validated :: "('d, 'i) env \<Rightarrow> Executor \<Rightarrow> Executor" where
  "validated e ex =
     ex\<lparr> output_type := (if output_type ex \<in> set output_types then output_type ex else ''macos-gnu''),
         jobs := resolve_jobs (cpu_count e) (length (case' ex)) (jobs ex) \<rparr>"


section \<open>Properties\<close>

lemma default_jobs_eq: "default_jobs n = (4 * int n + 4) div 5"
  unfolding default_jobs_def by linarith

lemma default_jobs_le: "default_jobs n \<le> int n"
  unfolding default_jobs_def by linarith

lemma default_jobs_pos: "0 < n \<Longrightarrow> 0 < default_jobs n"
  unfolding default_jobs_def by linarith

lemma default_jobs_nonneg: "0 \<le> default_jobs n"
  unfolding default_jobs_def by linarith

lemma resolve_jobs_eq:
  "- 1 \<le> j \<Longrightarrow> resolve_jobs cpus n j =
     min (if j = - 1 then default_jobs cpus else if j = 0 then 0 else min j (int cpus)) (int n)"
  using default_jobs_le [of cpus] default_jobs_nonneg [of cpus]
  by (auto simp: resolve_jobs_def Let_def)

lemma resolve_jobs_bounds:
  assumes "- 1 \<le> j" "j \<noteq> 0" "0 < cpus" "0 < n"
  shows "0 < resolve_jobs cpus n j" "resolve_jobs cpus n j \<le> int cpus" "resolve_jobs cpus n j \<le> int n"
  using assms default_jobs_le [of cpus] default_jobs_pos [of cpus]
  by (auto simp: resolve_jobs_def Let_def)

lemma input_error_negative: "jobs ex < - 1 \<Longrightarrow> input_error e fs ex \<noteq> None"
  by (simp add: input_error_def split: option.splits)

lemma input_error_None_jobs: "input_error e fs ex = None \<Longrightarrow> - 1 \<le> jobs ex"
  by (simp add: input_error_def split: option.splits if_splits)

lemma input_error_cong:
  assumes "bd_executable ex = bd_executable ex2" "of_executable ex = of_executable ex2"
    "source ex = source ex2" "build ex = build ex2" "plot ex = plot ex2" "jobs ex = jobs ex2"
  shows "input_error e fs ex = input_error e fs ex2"
  unfolding input_error_def assms by (rule refl)

lemma input_error_output_type [simp]:
  "input_error e fs (ex\<lparr>output_type := t\<rparr>) = input_error e fs ex"
  by (rule input_error_cong) simp_all

lemma validate_inputs_eq:
  "validate_inputs e fs ex =
     (if output_type ex \<in> set output_types then [] else [''Defaulting to macos-gnu for output type''],
      case input_error e fs ex of Some err \<Rightarrow> Inl err | None \<Rightarrow> Inr (validated e ex))"
  by (simp add: validate_inputs_def validated_def Let_def split: option.splits)

lemma init_attributes_simps:
  "case' (init_attributes s a) = expand_case (case_arg a)"
  "jobs (init_attributes s a) = (if jobs_arg a \<noteq> 0 then jobs_arg a else - 1)"
  "output_type (init_attributes s a) = s @ ''-'' @ lower (compiler_arg a)"
  "source (init_attributes s a) = Path (source_arg a)"
  "build (init_attributes s a) = Path (source_arg a) @ [''build'']"
  "rtest (init_attributes s a) = Path (source_arg a) @ [''reg_tests'', ''r-test'']"
  "module (init_attributes s a) = Path (source_arg a) @ [''reg_tests'', ''r-test'', ''glue-codes'', ''openfast'']"
  "of_executable (init_attributes s a) = fst (select_executables (source_arg a) (source_arg a) (executable_arg a))"
  "bd_executable (init_attributes s a) = snd (select_executables (source_arg a) (source_arg a) (executable_arg a))"
  "inputs (init_attributes s a) = None"
  "outputs (init_attributes s a) = None"
  "test_build (init_attributes s a) = None"
  "execution (init_attributes s a) = execution_arg a"
  "verbose (init_attributes s a) = verbose_arg a"
  "plot (init_attributes s a) = plot_arg a"
  by (simp_all add: init_attributes_def Let_def path_join_def)

lemma validated_simps:
  "case' (validated e ex) = case' ex"
  "jobs (validated e ex) = resolve_jobs (cpu_count e) (length (case' ex)) (jobs ex)"
  "output_type (validated e ex) = (if output_type ex \<in> set output_types then output_type ex else ''macos-gnu'')"
  "source (validated e ex) = source ex"
  "build (validated e ex) = build ex"
  "rtest (validated e ex) = rtest ex"
  "module (validated e ex) = module ex"
  "of_executable (validated e ex) = of_executable ex"
  "bd_executable (validated e ex) = bd_executable ex"
  "inputs (validated e ex) = inputs ex"
  "outputs (validated e ex) = outputs ex"
  "test_build (validated e ex) = test_build ex"
  "execution (validated e ex) = execution ex"
  "verbose (validated e ex) = verbose ex"
  by (simp_all add: validated_def)

lemma Executor_init_Inr:
  assumes "snd (Executor_init e fs a) = Inr ex"
  obtains system where
    "map_of SYSTEM_MAP (case system_arg a of None \<Rightarrow> platform_system e | Some s \<Rightarrow> s) = Some system"
    "input_error e fs (init_attributes system a) = None"
    "ex = validated e (init_attributes system a)"
  using assms
  by (auto simp: Executor_init_def validate_inputs_eq Let_def split: option.splits)

lemma Executor_init_Inl_negative:
  assumes "jobs_arg a < - 1"
  shows "\<exists>err. snd (Executor_init e fs a) = Inl err"
proof -
  have ne: "input_error e fs (init_attributes s a) \<noteq> None" for s
    using assms by (intro input_error_negative) (simp add: init_attributes_simps)
  show ?thesis
  proof (cases "map_of SYSTEM_MAP (case system_arg a of None \<Rightarrow> platform_system e | Some s \<Rightarrow> s)")
    case None
    then show ?thesis by (simp add: Executor_init_def Let_def)
  next
    case (Some s)
    with ne [of s] show ?thesis
      by (auto simp: Executor_init_def validate_inputs_eq Let_def)
  qed
qed

text \<open>
  C1. A construction with a requested job count below -1 raises. A successful
  construction leaves the job count at the minimum of the number of cases and the
  resolved request: \<open>ceil(0.8 * cpu_count)\<close> for a request of -1 or 0, and the minimum of
  the request and the processor count for a positive request.
\<close>

theorem jobs_resolution:
  "(jobs_arg a < - 1 \<longrightarrow> (\<exists>err. snd (Executor_init e fs a) = Inl err)) \<and>
   (\<forall>ex. snd (Executor_init e fs a) = Inr ex \<longrightarrow>
      case' ex = expand_case (case_arg a) \<and>
      jobs ex = min (if jobs_arg a = - 1 \<or> jobs_arg a = 0 then \<lceil>real (cpu_count e) * 0.8\<rceil>
                     else min (jobs_arg a) (int (cpu_count e)))
                    (int (length (case' ex))))"
proof (intro conjI impI allI)
  assume "jobs_arg a < - 1"
  then show "\<exists>err. snd (Executor_init e fs a) = Inl err"
    by (rule Executor_init_Inl_negative)
next
  fix ex assume ok: "snd (Executor_init e fs a) = Inr ex"
  then obtain s where v: "input_error e fs (init_attributes s a) = None"
    and ex: "ex = validated e (init_attributes s a)"
    by (rule Executor_init_Inr)
  show "case' ex = expand_case (case_arg a)"
    by (simp add: ex validated_simps init_attributes_simps)
  have "- 1 \<le> jobs (init_attributes s a)"
    using v by (rule input_error_None_jobs)
  then show "jobs ex = min (if jobs_arg a = - 1 \<or> jobs_arg a = 0 then \<lceil>real (cpu_count e) * 0.8\<rceil>
                     else min (jobs_arg a) (int (cpu_count e)))
                    (int (length (case' ex)))"
    by (simp add: ex validated_simps resolve_jobs_eq init_attributes_simps default_jobs_def)
qed

lemma build_directory_references_keeps:
  assumes "build_directory_references ex = Inr ex'"
  shows "jobs ex' = jobs ex" "case' ex' = case' ex" "of_executable ex' = of_executable ex"
    "bd_executable ex' = bd_executable ex" "verbose ex' = verbose ex" "execution ex' = execution ex"
    "build ex' = build ex" "module ex' = module ex" "rtest ex' = rtest ex"
  using assms by (auto simp: build_directory_references_def split: sum.splits)

lemma run_openfast_cases_workers:
  assumes "run_openfast_cases e ex = Inr d"
  shows "int (workers d) = jobs ex" "1 \<le> jobs ex"
  using assms
  by (auto simp: run_openfast_cases_def Pool_def Let_def split: option.splits sum.splits if_splits)

lemma run_Inr:
  assumes "run e ex fs = (Inr (ex', d), fs')"
  shows "build_directory_references ex = Inr ex'"
    and "\<And>w. d = Some w \<Longrightarrow> run_openfast_cases e ex' = Inr w"
  using assms
  by (auto simp: run_def split: sum.splits if_splits outcome.splits)

lemma Executor_init_bounds:
  assumes "snd (Executor_init e fs a) = Inr ex" "expand_case (case_arg a) \<noteq> []" "0 < cpu_count e"
  shows "0 < jobs ex" "jobs ex \<le> int (cpu_count e)" "jobs ex \<le> int (length (case' ex))"
proof -
  from assms(1) obtain s where v: "input_error e fs (init_attributes s a) = None"
    and ex: "ex = validated e (init_attributes s a)"
    by (rule Executor_init_Inr)
  have j: "- 1 \<le> jobs (init_attributes s a)" "jobs (init_attributes s a) \<noteq> 0"
    using input_error_None_jobs [OF v] by (simp_all add: init_attributes_simps)
  have n: "0 < length (case' (init_attributes s a))"
    using assms(2) by (simp add: init_attributes_simps)
  show "0 < jobs ex" "jobs ex \<le> int (cpu_count e)" "jobs ex \<le> int (length (case' ex))"
    using resolve_jobs_bounds [OF j assms(3) n] by (simp_all add: ex validated_simps)
qed

text \<open>
  C9. After a successful construction over a non-empty case list on a host with at
  least one processor, the job count is positive and at most the processor count and
  the number of cases; \<open>run\<close> changes neither the job count nor the case list, and
  every pool it dispatches to has exactly that many workers.
\<close>

theorem jobs_bounds:
  assumes "snd (Executor_init e fs a) = Inr ex"
    and "expand_case (case_arg a) \<noteq> []"
    and "0 < cpu_count e"
  shows "0 < jobs ex \<and> jobs ex \<le> int (cpu_count e) \<and> jobs ex \<le> int (length (case' ex)) \<and>
    (\<forall>fs1 ex' d fs2. run e ex fs1 = (Inr (ex', d), fs2) \<longrightarrow>
       jobs ex' = jobs ex \<and> case' ex' = case' ex \<and>
       (\<forall>w. d = Some w \<longrightarrow> int (workers w) = jobs ex))"
proof (intro conjI allI impI)
  show "0 < jobs ex" "jobs ex \<le> int (cpu_count e)" "jobs ex \<le> int (length (case' ex))"
    using Executor_init_bounds [OF assms] by simp_all
next
  fix fs1 ex' d fs2 assume r: "run e ex fs1 = (Inr (ex', d), fs2)"
  from run_Inr(1) [OF r] show "jobs ex' = jobs ex" "case' ex' = case' ex"
    by (simp_all add: build_directory_references_keeps)
  fix w assume "d = Some w"
  with run_Inr(2) [OF r] have "run_openfast_cases e ex' = Inr w" by simp
  then have "int (workers w) = jobs ex'" by (rule run_openfast_cases_workers)
  also have "\<dots> = jobs ex" using run_Inr(1) [OF r] by (simp add: build_directory_references_keeps)
  finally show "int (workers w) = jobs ex" .
qed

lemma Executor_init_system:
  assumes "map_of SYSTEM_MAP (case system_arg a of None \<Rightarrow> platform_system e | Some s \<Rightarrow> s) = Some system"
  shows "Executor_init e fs a = validate_inputs e fs (init_attributes system a)"
  using assms by (simp add: Executor_init_def Let_def)

lemma input_error_init_cong:
  assumes "executable_arg a = executable_arg b" "source_arg a = source_arg b"
    "plot_arg a = plot_arg b" "jobs_arg a = jobs_arg b"
  shows "input_error e fs (init_attributes s a) = input_error e fs (init_attributes t b)"
  by (rule input_error_cong) (simp_all add: init_attributes_simps assms)

text \<open>
  C6. When the system name is found in \<open>SYSTEM_MAP\<close> and the joined identifier is none of
  the four output types, the constructor prints the warning, a successful construction
  has the output type \<open>macos-gnu\<close>, and the construction raises exactly what it raises
  for the pair Darwin and gnu with the other arguments unchanged: the fallback itself
  raises nothing.
\<close>

theorem output_type_fallback:
  assumes "map_of SYSTEM_MAP (case system_arg a of None \<Rightarrow> platform_system e | Some s \<Rightarrow> s) = Some system"
    and "system @ ''-'' @ lower (compiler_arg a) \<notin> set output_types"
  shows "fst (Executor_init e fs a) = [''Defaulting to macos-gnu for output type''] \<and>
    (\<forall>ex. snd (Executor_init e fs a) = Inr ex \<longrightarrow> output_type ex = ''macos-gnu'') \<and>
    (\<forall>err. (snd (Executor_init e fs a) = Inl err) =
            (snd (Executor_init e fs (a\<lparr>system_arg := Some ''Darwin'', compiler_arg := ''gnu''\<rparr>)) = Inl err))"
proof -
  let ?b = "a\<lparr>system_arg := Some ''Darwin'', compiler_arg := ''gnu''\<rparr>"
  have b: "Executor_init e fs ?b = validate_inputs e fs (init_attributes ''macos'' ?b)"
    by (rule Executor_init_system) (simp add: SYSTEM_MAP_def)
  have c: "input_error e fs (init_attributes system a) = input_error e fs (init_attributes ''macos'' ?b)"
    by (rule input_error_init_cong) simp_all
  show ?thesis
    using assms(2)
    by (auto simp: Executor_init_system [OF assms(1)] b c validate_inputs_eq validated_simps
        init_attributes_simps split: option.splits)
qed

lemma suffix_last: "suffix suf s \<Longrightarrow> suf \<noteq> [] \<Longrightarrow> last s = last suf"
  by (auto simp: suffix_def)

lemma endswith_exclusive: "endswith x ''openfast'' \<Longrightarrow> \<not> endswith x ''beamdyn_driver''"
proof
  assume "endswith x ''openfast''" "endswith x ''beamdyn_driver''"
  then have "last x = last ''openfast''" "last x = last ''beamdyn_driver''"
    using suffix_last [of "''openfast''" x] suffix_last [of "''beamdyn_driver''" x]
    by (simp_all add: endswith_def)
  then show False by simp
qed

lemma select_executables_eq:
  "select_executables ofe bde exes =
     (if filter (\<lambda>x. endswith x ''openfast'') exes = [] then ofe
      else PathObj (parts (last (filter (\<lambda>x. endswith x ''openfast'') exes))),
      if filter (\<lambda>x. endswith x ''beamdyn_driver'') exes = [] then bde
      else PathObj (parts (last (filter (\<lambda>x. endswith x ''beamdyn_driver'') exes))))"
proof (induction exes arbitrary: ofe bde)
  case Nil
  show ?case by simp
next
  case (Cons x exes)
  show ?case
    using endswith_exclusive [of x] by (simp add: Cons.IH)
qed

lemma run_single_case_eq:
  assumes "case_category c = Inr cat"
  shows "run_single_case e ex (ix, c, tb) =
    (case run_openfast_case e (if cat = Beamdyn then bd_executable ex else of_executable ex)
            (tb @ [if cat = Beamdyn then ''bd_driver.inp'' else c @ ''.fst'']) ix c (verbose ex)
            (cat = Beamdyn) of
       Inl err \<Rightarrow> Inl err
     | Inr code \<Rightarrow> Inr (code, ix, c))"
  using assms by (simp add: run_single_case_def path_join_def Let_def)

text \<open>
  C8, as amended. After a successful construction the general executable is the last
  supplied path that ends with \<open>openfast\<close>, and the beamdyn driver the last supplied
  path that ends with \<open>beamdyn_driver\<close>; where no supplied path has the suffix the
  executable stays the \<open>source\<close> argument, and a path with neither suffix is selected
  as nothing. A beamdyn case runs the beamdyn driver and every other case the general
  executable.
\<close>

theorem executable_selection:
  "\<forall>ex. snd (Executor_init e fs a) = Inr ex \<longrightarrow>
     of_executable ex =
       (if filter (\<lambda>x. endswith x ''openfast'') (executable_arg a) = [] then source_arg a
        else PathObj (parts (last (filter (\<lambda>x. endswith x ''openfast'') (executable_arg a))))) \<and>
     bd_executable ex =
       (if filter (\<lambda>x. endswith x ''beamdyn_driver'') (executable_arg a) = [] then source_arg a
        else PathObj (parts (last (filter (\<lambda>x. endswith x ''beamdyn_driver'') (executable_arg a))))) \<and>
     (\<forall>ix c tb cat. case_category c = Inr cat \<longrightarrow>
        run_single_case e ex (ix, c, tb) =
          (case run_openfast_case e (if cat = Beamdyn then bd_executable ex else of_executable ex)
                  (tb @ [if cat = Beamdyn then ''bd_driver.inp'' else c @ ''.fst'']) ix c (verbose ex)
                  (cat = Beamdyn) of
             Inl err \<Rightarrow> Inl err
           | Inr code \<Rightarrow> Inr (code, ix, c)))"
proof (intro allI impI)
  fix ex assume "snd (Executor_init e fs a) = Inr ex"
  then obtain s where ex: "ex = validated e (init_attributes s a)"
    by (rule Executor_init_Inr)
  show "of_executable ex =
       (if filter (\<lambda>x. endswith x ''openfast'') (executable_arg a) = [] then source_arg a
        else PathObj (parts (last (filter (\<lambda>x. endswith x ''openfast'') (executable_arg a))))) \<and>
     bd_executable ex =
       (if filter (\<lambda>x. endswith x ''beamdyn_driver'') (executable_arg a) = [] then source_arg a
        else PathObj (parts (last (filter (\<lambda>x. endswith x ''beamdyn_driver'') (executable_arg a))))) \<and>
     (\<forall>ix c tb cat. case_category c = Inr cat \<longrightarrow>
        run_single_case e ex (ix, c, tb) =
          (case run_openfast_case e (if cat = Beamdyn then bd_executable ex else of_executable ex)
                  (tb @ [if cat = Beamdyn then ''bd_driver.inp'' else c @ ''.fst'']) ix c (verbose ex)
                  (cat = Beamdyn) of
             Inl err \<Rightarrow> Inl err
           | Inr code \<Rightarrow> Inr (code, ix, c)))"
    using run_single_case_eq [of _ _ e ex]
    by (simp add: ex validated_simps init_attributes_simps select_executables_eq)
qed

lemma all_references_unknown:
  assumes "\<exists>n\<in>set cs. map_of CASE_MAP n = None"
  shows "all_references ex cs = Inl (KeyError (hd (filter (\<lambda>n. map_of CASE_MAP n = None) cs)))"
  using assms
proof (induction cs)
  case Nil
  then show ?case by simp
next
  case (Cons c cs)
  show ?case
  proof (cases "map_of CASE_MAP c")
    case None
    then show ?thesis by (simp add: case_references_def case_category_def)
  next
    case (Some t)
    with Cons show ?thesis
      by (auto simp: case_references_def case_category_def Let_def)
  qed
qed

lemma run_unknown:
  assumes "\<exists>n\<in>set (case' ex). map_of CASE_MAP n = None"
  shows "run e ex fs = (Inl (KeyError (hd (filter (\<lambda>n. map_of CASE_MAP n = None) (case' ex)))), fs)"
  by (simp add: run_def build_directory_references_def all_references_unknown [OF assms])

lemma Executor_init_case_independent:
  "(snd (Executor_init e fs a) = Inl err) = (snd (Executor_init e fs (a\<lparr>case_arg := c\<rparr>)) = Inl err)"
proof -
  have "input_error e fs (init_attributes s a) = input_error e fs (init_attributes s (a\<lparr>case_arg := c\<rparr>))" for s
    by (rule input_error_init_cong) simp_all
  then show ?thesis
    by (auto simp: Executor_init_def validate_inputs_eq Let_def split: option.splits)
qed

text \<open>
  C5, as amended. The constructor does not look the case names up: whether it raises,
  and what, is the same for every case argument. A case name that is not in the
  catalogue raises \<open>KeyError\<close> in \<open>run\<close>, for the first such name of the case list, and
  \<open>run\<close> then leaves the file system as it was and dispatches nothing.
\<close>

theorem unknown_case_deferred:
  "(\<forall>err. (snd (Executor_init e fs a) = Inl err) =
           (snd (Executor_init e fs (a\<lparr>case_arg := c\<rparr>)) = Inl err)) \<and>
   ((\<exists>n\<in>set (case' ex). map_of CASE_MAP n = None) \<longrightarrow>
      run e ex fs1 =
        (Inl (KeyError (hd (filter (\<lambda>n. map_of CASE_MAP n = None) (case' ex)))), fs1))"
  using Executor_init_case_independent [of e fs a _ c] run_unknown [of ex e fs1] by blast

text \<open>
  C4. \<open>test_norm\<close> over a non-empty case list raises \<open>NameError\<close> in its first pass
  and returns no list of norm results, whatever the baseline and test lists hold.
\<close>

theorem test_norm_raises:
  "test_norm (c # cs) baseline_lst test_lst norm_lst = Inl (NameError ''baseline'')"
  by (simp add: test_norm_def)

lemma read_loop_lengths:
  assumes "read_loop e fs xs (cs, bs, ts) = Inr (cs', bs', ts')"
    and "length cs = length bs" "length bs = length ts"
  shows "length cs' = length bs' \<and> length bs' = length ts'"
  using assms
proof (induction xs arbitrary: cs bs ts)
  case Nil
  then show ?case by simp
next
  case (Cons x xs)
  then show ?case
    by (auto split: sum.splits option.splits)
qed

lemma read_out_files_lengths:
  assumes "read_out_files e fs ex = Inr (cs, bs, ts)"
  shows "length cs = length bs \<and> length bs = length ts"
  using assms read_loop_lengths [of e fs _ "[]" "[]" "[]" cs bs ts]
  by (auto simp: read_out_files_def split: option.splits)






lemma all_references_Inr:
  assumes "all_references ex cs = Inr rs"
  shows "length rs = length cs"
    and "map (snd \<circ> snd) rs = map (\<lambda>c. build ex @ [''local_results'', c]) cs"
    and "\<forall>c\<in>set cs. \<exists>cat. case_category c = Inr cat"
  using assms
  by (induction cs arbitrary: rs)
    (auto simp: case_references_def path_join_def Let_def split: sum.splits)

lemma build_directory_references_test_build:
  assumes "build_directory_references ex = Inr ex'"
  shows "test_build ex' = Some (map (\<lambda>c. build ex @ [''local_results'', c]) (case' ex))"
    and "\<forall>c\<in>set (case' ex). \<exists>cat. case_category c = Inr cat"
  using assms all_references_Inr [of ex "case' ex"]
  by (auto simp: build_directory_references_def split: sum.splits)

lemma pool_map_Inr:
  assumes "\<forall>x\<in>set xs. \<exists>y. f x = Inr y"
  shows "\<exists>ys. pool_map f xs = Inr ys \<and> length ys = length xs \<and>
           (\<forall>i<length xs. f (xs ! i) = Inr (ys ! i))"
  using assms
proof (induction xs)
  case Nil
  show ?case by simp
next
  case (Cons x xs)
  then obtain y ys where y: "f x = Inr y" and ys: "pool_map f xs = Inr ys"
    "length ys = length xs" "\<forall>i<length xs. f (xs ! i) = Inr (ys ! i)"
    by auto
  have "\<forall>i<length (x # xs). f ((x # xs) ! i) = Inr ((y # ys) ! i)"
    using y ys(3) by (auto simp: nth_Cons split: nat.splits)
  then show ?case using y ys by simp
qed

lemma tally_eq:
  "tally rs fail success =
     (fail @ concat (map (\<lambda>r. [CHR 0x0A] @ ''  '' @ fail_entry (fst (snd r)) (snd (snd r)))
                      (filter (\<lambda>r. fst r \<noteq> 0) rs)),
      success + length (filter (\<lambda>r. fst r = 0) rs))"
  by (induction rs fail success rule: tally.induct) simp_all

lemma run_single_case_Inr:
  assumes "case_category c = Inr cat"
    and "\<forall>exe inp ix c v b. \<exists>k. run_openfast_case e exe inp ix c v b = Inr k"
  shows "\<exists>k. run_single_case e ex (ix, c, tb) = Inr (k, ix, c)"
proof -
  from assms(2) obtain k where
    "run_openfast_case e (if cat = Beamdyn then bd_executable ex else of_executable ex)
       (tb @ [if cat = Beamdyn then ''bd_driver.inp'' else c @ ''.fst'']) ix c (verbose ex)
       (cat = Beamdyn) = Inr k"
    by blast
  then show ?thesis by (simp add: run_single_case_eq [OF assms(1)])
qed

lemma length_ordinals [simp]: "length (ordinals n) = n"
  by (simp add: ordinals_def)

lemma filter_zero_length:
  "(length (filter (\<lambda>r. fst r = (0::int)) rs) \<noteq> length rs) = (\<exists>r\<in>set rs. fst r \<noteq> 0)"
proof (induction rs)
  case Nil
  show ?case by simp
next
  case (Cons r rs)
  have "length (filter (\<lambda>r. fst r = (0::int)) rs) \<le> length rs" by simp
  with Cons show ?case by (auto simp del: length_filter_le)
qed

lemma input_error_run_independent:
  "input_error (e\<lparr>run_openfast_case := f\<rparr>) fs ex = input_error e fs ex"
proof -
  have "validate_executable (e\<lparr>run_openfast_case := f\<rparr>) = validate_executable e"
    "validate_directory (e\<lparr>run_openfast_case := f\<rparr>) = validate_directory e"
    by simp_all
  then show ?thesis
    unfolding input_error_def by (simp only:)
qed

lemma validate_inputs_run_independent:
  "validate_inputs (e\<lparr>run_openfast_case := f\<rparr>) fs ex = validate_inputs e fs ex"
  by (simp add: validate_inputs_eq input_error_run_independent validated_def split: option.splits)

lemma Executor_init_run_independent:
  "Executor_init (e\<lparr>run_openfast_case := f\<rparr>) fs a = Executor_init e fs a"
  by (simp add: Executor_init_def validate_inputs_run_independent Let_def split: option.splits)

lemma resolve_jobs_empty: "resolve_jobs cpus 0 j \<le> 0"
  by (simp add: resolve_jobs_def Let_def)

lemma Executor_init_empty:
  assumes "snd (Executor_init e fs a) = Inr ex" "expand_case (case_arg a) = []"
  shows "case' ex = []" "jobs ex \<le> 0"
proof -
  from assms(1) obtain s where ex: "ex = validated e (init_attributes s a)"
    by (rule Executor_init_Inr)
  show "case' ex = []"
    using assms(2) by (simp add: ex validated_simps init_attributes_simps)
  then show "jobs ex \<le> 0"
    using resolve_jobs_empty by (simp add: ex validated_simps)
qed

lemma pool_map_Inl:
  assumes "x \<in> set xs" "f x = Inl err"
  shows "\<exists>err'. pool_map f xs = Inl err'"
  using assms(1)
proof (induction xs)
  case Nil
  then show ?case by simp
next
  case (Cons y ys)
  show ?case
  proof (cases "f y")
    case (Inl err')
    then show ?thesis by simp
  next
    case (Inr r)
    with Cons.prems assms(2) have "x \<in> set ys" by auto
    from Cons.IH [OF this] Inr show ?thesis by auto
  qed
qed

lemma run_openfast_cases_Inl:
  assumes "pool_map (run_single_case e ex) (zip (ordinals (length (case' ex))) (zip (case' ex) tbs)) = Inl err"
    and "test_build ex = Some tbs"
  shows "\<exists>err'. run_openfast_cases e ex = Inl err'"
  using assms by (simp add: run_openfast_cases_def Let_def split: sum.splits)

text \<open>
  C3, as amended. After a successful construction, with every case in the catalogue:
  for the empty plan the job count is at most zero and the dispatch raises \<open>ValueError\<close>
  where it creates the pool; when the run of a case raises, the dispatch raises and
  returns no results; for a plan of at least one case on a host with at least one
  processor, when every external run returns an exit code, the dispatch returns one
  result per case, in input order, each with the ordinal and the name of its case and
  the exit code of its run; no exit code raises; the lines printed give the number of
  zero exit codes out of the number of cases and, where an exit code is not zero, the
  failed cases. \<open>run\<close> returns this dispatch, or raises this error, when the
  materialization before it succeeds.
\<close>

theorem dispatch_complete:
  assumes "snd (Executor_init e fs a) = Inr ex"
    and "build_directory_references ex = Inr ex'"
  shows
   "(expand_case (case_arg a) = [] \<longrightarrow>
       run_openfast_cases e ex' = Inl (ValueError ''Number of processes must be at least 1'') \<and>
       (\<forall>fs1 fs2. execution ex \<and> build_test_output_directories e ex' fs1 = Done fs2 \<longrightarrow>
          run e ex fs1 = (Inl (ValueError ''Number of processes must be at least 1''), fs2))) \<and>
    ((\<exists>i<length (case' ex). \<exists>err.
         run_single_case e ex'
           (ordinals (length (case' ex)) ! i, case' ex ! i, build ex @ [''local_results'', case' ex ! i]) =
         Inl err) \<longrightarrow>
       (\<exists>err. run_openfast_cases e ex' = Inl err) \<and>
       (\<forall>fs1 fs2. execution ex \<and> build_test_output_directories e ex' fs1 = Done fs2 \<longrightarrow>
          (\<exists>err. run e ex fs1 = (Inl err, fs2)))) \<and>
    (expand_case (case_arg a) \<noteq> [] \<and> 0 < cpu_count e \<and>
     (\<forall>exe inp ix c v b. \<exists>k. run_openfast_case e exe inp ix c v b = Inr k) \<longrightarrow>
       (\<exists>d. run_openfast_cases e ex' = Inr d \<and>
          length (results d) = length (case' ex) \<and>
          map (\<lambda>r. fst (snd r)) (results d) = ordinals (length (case' ex)) \<and>
          map (\<lambda>r. snd (snd r)) (results d) = case' ex \<and>
          (\<forall>i<length (case' ex).
             run_single_case e ex'
               (ordinals (length (case' ex)) ! i, case' ex ! i, build ex @ [''local_results'', case' ex ! i]) =
             Inr (results d ! i)) \<and>
          printed d =
            [[CHR 0x0A, CHR 0x0A] @ ''    '' @ str_nat (length (filter (\<lambda>r. fst r = 0) (results d))) @ ''/'' @
               str_nat (length (case' ex)) @ '' test cases passed''] @
            (if \<exists>r\<in>set (results d). fst r \<noteq> 0
             then [[CHR 0x0A] @ ''    Failed cases:'' @
                     concat (map (\<lambda>r. [CHR 0x0A] @ ''  '' @ fail_entry (fst (snd r)) (snd (snd r)))
                               (filter (\<lambda>r. fst r \<noteq> 0) (results d)))]
             else []) \<and>
          (\<forall>fs1 fs2. execution ex \<and> build_test_output_directories e ex' fs1 = Done fs2 \<longrightarrow>
             run e ex fs1 = (Inr (ex', Some d), fs2))))"
    (is "?empty \<and> ?raising \<and> ?returning")
proof -
  let ?n = "length (case' ex)"
  let ?tbs = "map (\<lambda>c. build ex @ [''local_results'', c]) (case' ex)"
  let ?args = "zip (ordinals ?n) (zip (case' ex) ?tbs)"
  have keep: "case' ex' = case' ex" "jobs ex' = jobs ex" "execution ex' = execution ex"
    using assms(2) by (simp_all add: build_directory_references_keeps)
  have tb: "test_build ex' = Some ?tbs"
    and known: "\<forall>c\<in>set (case' ex). \<exists>cat. case_category c = Inr cat"
    using build_directory_references_test_build [OF assms(2)] by simp_all
  have len: "length ?args = ?n" by simp
  have nth: "?args ! i = (ordinals ?n ! i, case' ex ! i, build ex @ [''local_results'', case' ex ! i])"
    if "i < ?n" for i
    using that by simp
  have run_Inl: "run e ex fs1 = (Inl err, fs2)"
    if "run_openfast_cases e ex' = Inl err" "execution ex" "build_test_output_directories e ex' fs1 = Done fs2"
    for err fs1 fs2
    using that by (simp add: run_def assms(2) keep)
  have empty: ?empty
  proof (intro impI conjI allI)
    assume "expand_case (case_arg a) = []"
    from Executor_init_empty(2) [OF assms(1) this] have "jobs ex \<le> 0" .
    then show d: "run_openfast_cases e ex' = Inl (ValueError ''Number of processes must be at least 1'')"
      by (simp add: run_openfast_cases_def keep tb Pool_def Let_def)
    fix fs1 fs2 assume "execution ex \<and> build_test_output_directories e ex' fs1 = Done fs2"
    with d show "run e ex fs1 = (Inl (ValueError ''Number of processes must be at least 1''), fs2)"
      by (simp add: run_Inl)
  qed
  have raising: ?raising
  proof (intro impI)
    assume "\<exists>i<?n. \<exists>err. run_single_case e ex'
           (ordinals ?n ! i, case' ex ! i, build ex @ [''local_results'', case' ex ! i]) = Inl err"
    then obtain i err where i: "i < ?n" and r0: "run_single_case e ex'
           (ordinals ?n ! i, case' ex ! i, build ex @ [''local_results'', case' ex ! i]) = Inl err"
      by (elim exE conjE)
    have r: "run_single_case e ex' (?args ! i) = Inl err"
      unfolding nth [OF i] by (rule r0)
    have m: "?args ! i \<in> set ?args"
      by (rule nth_mem) (simp only: len i)
    from pool_map_Inl [where f = "run_single_case e ex'", OF m r] obtain err' where p: "pool_map (run_single_case e ex') ?args = Inl err'" ..
    have "pool_map (run_single_case e ex')
        (zip (ordinals (length (case' ex'))) (zip (case' ex') ?tbs)) = Inl err'"
      unfolding keep by (rule p)
    from run_openfast_cases_Inl [OF this tb] obtain err2
      where d: "run_openfast_cases e ex' = Inl err2" ..
    have "\<exists>err. run e ex fs1 = (Inl err, fs2)"
      if "execution ex \<and> build_test_output_directories e ex' fs1 = Done fs2" for fs1 fs2
      using run_Inl [OF d, of fs1 fs2] that by (intro exI [of _ err2]) (elim conjE)
    then have "\<forall>fs1 fs2. execution ex \<and> build_test_output_directories e ex' fs1 = Done fs2 \<longrightarrow>
          (\<exists>err. run e ex fs1 = (Inl err, fs2))"
      by (intro allI impI)
    moreover from d have "\<exists>err. run_openfast_cases e ex' = Inl err" ..
    ultimately show "(\<exists>err. run_openfast_cases e ex' = Inl err) \<and>
       (\<forall>fs1 fs2. execution ex \<and> build_test_output_directories e ex' fs1 = Done fs2 \<longrightarrow>
          (\<exists>err. run e ex fs1 = (Inl err, fs2)))"
      by (intro conjI)
  qed
  have returning: ?returning
  proof (intro impI)
  assume h: "expand_case (case_arg a) \<noteq> [] \<and> 0 < cpu_count e \<and>
     (\<forall>exe inp ix c v b. \<exists>k. run_openfast_case e exe inp ix c v b = Inr k)"
  then have ne: "expand_case (case_arg a) \<noteq> []" and cpu: "0 < cpu_count e"
    and codes: "\<forall>exe inp ix c v b. \<exists>k. run_openfast_case e exe inp ix c v b = Inr k"
    by simp_all
  have jobs: "1 \<le> jobs ex"
    using Executor_init_bounds(1) [OF assms(1) ne cpu] by simp
  have "\<forall>x\<in>set ?args. \<exists>y. run_single_case e ex' x = Inr y"
  proof
    fix x assume "x \<in> set ?args"
    moreover obtain ix c tb' where x: "x = (ix, c, tb')"
      by (cases x) auto
    ultimately have "(c, tb') \<in> set (zip (case' ex) ?tbs)"
      by (auto dest: set_zip_rightD)
    then have c: "c \<in> set (case' ex)"
      by (rule set_zip_leftD)
    from known c obtain cat where "case_category c = Inr cat" by blast
    from run_single_case_Inr [OF this codes] show "\<exists>y. run_single_case e ex' x = Inr y"
      unfolding x by blast
  qed
  from pool_map_Inr [OF this] obtain rs where rs: "pool_map (run_single_case e ex') ?args = Inr rs"
    "length rs = ?n" "\<forall>i<?n. run_single_case e ex' (?args ! i) = Inr (rs ! i)"
    unfolding len by blast
  have each: "fst (snd (rs ! i)) = ordinals ?n ! i \<and> snd (snd (rs ! i)) = case' ex ! i"
    if "i < ?n" for i
  proof -
    from known that obtain cat where "case_category (case' ex ! i) = Inr cat"
      by (meson nth_mem)
    from run_single_case_Inr [OF this codes, of ex' "ordinals ?n ! i"
        "build ex @ [''local_results'', case' ex ! i]"]
      rs(3) that nth [OF that]
    show ?thesis by auto
  qed
  have ix: "map (\<lambda>r. fst (snd r)) rs = ordinals ?n"
    by (rule nth_equalityI) (simp_all add: each rs(2))
  have cs: "map (\<lambda>r. snd (snd r)) rs = case' ex"
    by (rule nth_equalityI) (simp_all add: each rs(2))
  let ?d = "\<lparr> workers = nat (jobs ex), results = rs,
      printed =
        [[CHR 0x0A, CHR 0x0A] @ ''    '' @ str_nat (length (filter (\<lambda>r. fst r = 0) rs)) @ ''/'' @
           str_nat ?n @ '' test cases passed''] @
        (if \<exists>r\<in>set rs. fst r \<noteq> 0
         then [[CHR 0x0A] @ ''    Failed cases:'' @
                 concat (map (\<lambda>r. [CHR 0x0A] @ ''  '' @ fail_entry (fst (snd r)) (snd (snd r)))
                           (filter (\<lambda>r. fst r \<noteq> 0) rs))]
         else []) \<rparr>"
  have d: "run_openfast_cases e ex' = Inr ?d"
    using jobs filter_zero_length [of rs]
    by (simp add: run_openfast_cases_def keep tb Pool_def rs(1,2) tally_eq Let_def)
  have "run e ex fs1 = (Inr (ex', Some ?d), fs2)"
    if "execution ex \<and> build_test_output_directories e ex' fs1 = Done fs2" for fs1 fs2
    using that by (simp add: run_def assms(2) keep d)
  with d rs(2) ix cs rs(3) nth
  show "\<exists>d. run_openfast_cases e ex' = Inr d \<and>
          length (results d) = length (case' ex) \<and>
          map (\<lambda>r. fst (snd r)) (results d) = ordinals (length (case' ex)) \<and>
          map (\<lambda>r. snd (snd r)) (results d) = case' ex \<and>
          (\<forall>i<length (case' ex).
             run_single_case e ex'
               (ordinals (length (case' ex)) ! i, case' ex ! i, build ex @ [''local_results'', case' ex ! i]) =
             Inr (results d ! i)) \<and>
          printed d =
            [[CHR 0x0A, CHR 0x0A] @ ''    '' @ str_nat (length (filter (\<lambda>r. fst r = 0) (results d))) @ ''/'' @
               str_nat (length (case' ex)) @ '' test cases passed''] @
            (if \<exists>r\<in>set (results d). fst r \<noteq> 0
             then [[CHR 0x0A] @ ''    Failed cases:'' @
                     concat (map (\<lambda>r. [CHR 0x0A] @ ''  '' @ fail_entry (fst (snd r)) (snd (snd r)))
                               (filter (\<lambda>r. fst r \<noteq> 0) (results d)))]
             else []) \<and>
          (\<forall>fs1 fs2. execution ex \<and> build_test_output_directories e ex' fs1 = Done fs2 \<longrightarrow>
             run e ex fs1 = (Inr (ex', Some d), fs2))"
    by (intro exI [of _ ?d]) simp
  qed
  show ?thesis
    by (rule conjI, rule empty, rule conjI, rule raising, rule returning)
qed

section \<open>Examples\<close>

lemma example_attributes:
  "init_attributes ''windows'' (example_args cs j) =
     (example_executor cs (if j \<noteq> 0 then j else - 1))\<lparr> output_type := ''windows-gnu'' \<rparr>"
  by (simp add: init_attributes_def example_args_def example_executor_def expand_case_def
      endswith_def suffix_to_prefix Path_def parts_def path_join_def lower_def lower_char_def)

lemma example_system:
  "map_of SYSTEM_MAP (case system_arg (example_args cs j) of None \<Rightarrow> s | Some s' \<Rightarrow> s') =
     Some ''windows''"
  by (simp add: example_args_def SYSTEM_MAP_def)

lemma example_validators:
  "validate_executable (host n k) example_fs (PathObj [''/'', ''opt'', ''openfast'']) = None"
  "validate_executable (host n k) example_fs (PathObj [''/'', ''opt'', ''beamdyn_driver'']) = None"
  "validate_directory (host n k) example_fs [''/'', ''repo'', ''build''] = None"
  "cpu_count (host n k) = n"
  by (simp_all add: host_def example_fs_def Path_def resolve_def)

lemma example_input_error:
  "- 1 \<le> j \<Longrightarrow> input_error (host n k) example_fs (example_executor cs j) = None"
  by (simp add: input_error_def example_executor_def example_validators)

lemma example_init:
  assumes "- 1 \<le> j"
  shows "snd (Executor_init (host n k) example_fs (example_args cs j)) =
     Inr (example_executor cs (resolve_jobs n (length cs) (if j \<noteq> 0 then j else - 1)))"
proof -
  have "input_error (host n k) example_fs (init_attributes ''windows'' (example_args cs j)) = None"
    using assms by (simp add: example_attributes example_input_error)
  moreover have "validated (host n k) (init_attributes ''windows'' (example_args cs j)) =
      example_executor cs (resolve_jobs n (length cs) (if j \<noteq> 0 then j else - 1))"
    by (simp add: example_attributes validated_def example_executor_def output_types_def
        example_validators)
  ultimately show ?thesis
    using example_system [where cs = cs and j = j and s = "platform_system (host n k)"]
    by (simp add: Executor_init_def validate_inputs_eq Let_def)
qed

theorem jobs_resolution_witness:
  "(\<exists>ex. snd (Executor_init (host 10 []) example_fs
              (example_args [''AOC_WSt'', ''bd_curved_beam'', ''AWT_YFix_WSt''] (- 1))) = Inr ex \<and>
         length (case' ex) = 3 \<and> jobs ex = 3) \<and>
   (\<exists>err. snd (Executor_init (host 10 []) example_fs
              (example_args [''AOC_WSt'', ''bd_curved_beam'', ''AWT_YFix_WSt''] (- 2))) = Inl err)"
proof -
  let ?cs = "[''AOC_WSt'', ''bd_curved_beam'', ''AWT_YFix_WSt'']"
  have a: "jobs_arg (example_args ?cs j) = j"
    "expand_case (case_arg (example_args ?cs j)) = ?cs" for j
    by (simp_all add: example_args_def expand_case_def)
  have ok: "snd (Executor_init (host 10 []) example_fs (example_args ?cs (- 1))) =
      Inr (example_executor ?cs 3)"
    using example_init [of "- 1" 10 "[]" ?cs] by (simp add: resolve_jobs_def default_jobs_eq)
  from jobs_resolution [of "example_args ?cs (- 1)" "host 10 []" example_fs] ok
  have "jobs (example_executor ?cs 3) = 3"
    by (simp add: a example_validators)
  moreover have "case' (example_executor ?cs 3) = ?cs"
    by (simp add: example_executor_def)
  moreover from jobs_resolution [of "example_args ?cs (- 2)" "host 10 []" example_fs]
  have "\<exists>err. snd (Executor_init (host 10 []) example_fs (example_args ?cs (- 2))) = Inl err"
    by (simp add: a)
  ultimately show ?thesis using ok by simp
qed

lemma example_fallback:
  "''windows'' @ ''-'' @ lower (compiler_arg (example_args cs j)) \<notin> set output_types"
  by (simp add: example_args_def lower_def lower_char_def output_types_def)

theorem output_type_fallback_witness:
  "fst (Executor_init (host 10 []) example_fs (example_args [''bd_curved_beam''] 1)) =
     [''Defaulting to macos-gnu for output type''] \<and>
   snd (Executor_init (host 10 []) example_fs (example_args [''bd_curved_beam''] 1)) =
     Inr (example_executor [''bd_curved_beam''] 1) \<and>
   output_type (example_executor [''bd_curved_beam''] 1) = ''macos-gnu''"
proof -
  have ok: "snd (Executor_init (host 10 []) example_fs (example_args [''bd_curved_beam''] 1)) =
      Inr (example_executor [''bd_curved_beam''] 1)"
    using example_init [of 1 10 "[]" "[''bd_curved_beam'']"]
    by (simp add: resolve_jobs_def)
  from output_type_fallback [where a = "example_args [''bd_curved_beam''] 1" and e = "host 10 []"
      and fs = example_fs, OF example_system example_fallback] ok
  show ?thesis by simp
qed

lemma example_attributes_exe:
  "init_attributes ''windows''
     ((example_args cs j)\<lparr>executable_arg := [''/opt/openfast.exe''], source_arg := PathObj [''/'', ''repo'']\<rparr>) =
     (example_executor cs (if j \<noteq> 0 then j else - 1))
       \<lparr> output_type := ''windows-gnu'', of_executable := PathObj [''/'', ''repo''],
         bd_executable := PathObj [''/'', ''repo''] \<rparr>"
  by (simp add: init_attributes_def example_args_def example_executor_def expand_case_def
      endswith_def suffix_to_prefix Path_def path_join_def lower_def lower_char_def Let_def)

text \<open>
  Against C8 as stated: the constructor is given the one executable
  \<open>/opt/openfast.exe\<close>, an existing file without the beamdyn suffix, and the source as
  a path object. The construction succeeds and the general executable is the source
  directory, not the supplied path.
\<close>

theorem executable_selection_counterexample:
  "snd (Executor_init (host 10 []) example_fs
          ((example_args [''bd_curved_beam''] 1)
             \<lparr>executable_arg := [''/opt/openfast.exe''], source_arg := PathObj [''/'', ''repo'']\<rparr>)) =
     Inr ((example_executor [''bd_curved_beam''] 1)
            \<lparr>of_executable := PathObj [''/'', ''repo''], bd_executable := PathObj [''/'', ''repo'']\<rparr>) \<and>
   PathObj [''/'', ''repo''] \<noteq> PathObj (parts ''/opt/openfast.exe'') \<and>
   lookup example_fs [''opt'', ''openfast.exe''] = Some (File ''PE'')"
proof -
  let ?a = "(example_args [''bd_curved_beam''] 1)
             \<lparr>executable_arg := [''/opt/openfast.exe''], source_arg := PathObj [''/'', ''repo'']\<rparr>"
  have s: "map_of SYSTEM_MAP (case system_arg ?a of None \<Rightarrow> platform_system (host 10 []) | Some s \<Rightarrow> s) =
      Some ''windows''"
    by (simp add: example_args_def SYSTEM_MAP_def)
  have "input_error (host 10 []) example_fs (init_attributes ''windows'' ?a) = None"
    by (simp add: example_attributes_exe input_error_def example_executor_def example_validators)
  moreover have "validated (host 10 []) (init_attributes ''windows'' ?a) =
      (example_executor [''bd_curved_beam''] 1)
            \<lparr>of_executable := PathObj [''/'', ''repo''], bd_executable := PathObj [''/'', ''repo'']\<rparr>"
    by (simp add: example_attributes_exe validated_def example_executor_def output_types_def
        example_validators resolve_jobs_def)
  ultimately have "snd (Executor_init (host 10 []) example_fs ?a) =
     Inr ((example_executor [''bd_curved_beam''] 1)
            \<lparr>of_executable := PathObj [''/'', ''repo''], bd_executable := PathObj [''/'', ''repo'']\<rparr>)"
    by (simp add: Executor_init_system [OF s] validate_inputs_eq)
  moreover have "PathObj [''/'', ''repo''] \<noteq> PathObj (parts ''/opt/openfast.exe'')"
    by (simp add: parts_def)
  moreover have "lookup example_fs [''opt'', ''openfast.exe''] = Some (File ''PE'')"
    by (simp add: example_fs_def)
  ultimately show ?thesis by simp
qed

lemma example_category: "case_category ''bd_curved_beam'' = Inr Beamdyn"
  by (simp add: case_category_def CASE_MAP_def)

theorem executable_selection_witness:
  "snd (Executor_init (host 10 []) example_fs (example_args [''bd_curved_beam''] 1)) =
     Inr (example_executor [''bd_curved_beam''] 1) \<and>
   of_executable (example_executor [''bd_curved_beam''] 1) = PathObj [''/'', ''opt'', ''openfast''] \<and>
   bd_executable (example_executor [''bd_curved_beam''] 1) = PathObj [''/'', ''opt'', ''beamdyn_driver''] \<and>
   run_single_case (host 10 []) (example_executor [''bd_curved_beam''] 1)
       (''1/1'', ''bd_curved_beam'', [''/'', ''repo'', ''build'', ''local_results'', ''bd_curved_beam'']) =
     (case run_openfast_case (host 10 []) (PathObj [''/'', ''opt'', ''beamdyn_driver''])
             [''/'', ''repo'', ''build'', ''local_results'', ''bd_curved_beam'', ''bd_driver.inp'']
             ''1/1'' ''bd_curved_beam'' False True of
        Inl err \<Rightarrow> Inl err
      | Inr code \<Rightarrow> Inr (code, ''1/1'', ''bd_curved_beam''))"
proof -
  let ?a = "example_args [''bd_curved_beam''] 1"
  let ?ex = "example_executor [''bd_curved_beam''] 1"
  have ok: "snd (Executor_init (host 10 []) example_fs ?a) = Inr ?ex"
    using example_init [of 1 10 "[]" "[''bd_curved_beam'']"]
    by (simp add: resolve_jobs_def)
  have exes: "filter (\<lambda>x. endswith x ''openfast'') (executable_arg ?a) = [''/opt/openfast'']"
    "filter (\<lambda>x. endswith x ''beamdyn_driver'') (executable_arg ?a) = [''/opt/beamdyn_driver'']"
    by (simp_all add: example_args_def endswith_def suffix_to_prefix)
  have p: "parts ''/opt/openfast'' = [''/'', ''opt'', ''openfast'']"
    "parts ''/opt/beamdyn_driver'' = [''/'', ''opt'', ''beamdyn_driver'']"
    by (simp_all add: parts_def)
  have v: "verbose ?ex = False" by (simp add: example_executor_def)
  from executable_selection [where a = ?a and e = "host 10 []" and fs = example_fs] ok
  have sel: "of_executable ?ex = PathObj [''/'', ''opt'', ''openfast'']"
    "bd_executable ?ex = PathObj [''/'', ''opt'', ''beamdyn_driver'']"
    and r: "\<And>ix c tb cat. case_category c = Inr cat \<Longrightarrow>
        run_single_case (host 10 []) ?ex (ix, c, tb) =
          (case run_openfast_case (host 10 []) (if cat = Beamdyn then bd_executable ?ex else of_executable ?ex)
                  (tb @ [if cat = Beamdyn then ''bd_driver.inp'' else c @ ''.fst'']) ix c (verbose ?ex)
                  (cat = Beamdyn) of
             Inl err \<Rightarrow> Inl err
           | Inr code \<Rightarrow> Inr (code, ix, c))"
    by (simp_all add: exes p)
  show ?thesis
    using ok sel r [OF example_category] by (simp add: sel v)
qed

lemma no_such_case: "map_of CASE_MAP ''no_such_case'' = None"
  by (simp add: CASE_MAP_def)

text \<open>
  Against C5 as stated: the construction over a case name that is not in the catalogue
  succeeds.
\<close>

theorem unknown_case_counterexample:
  "snd (Executor_init (host 10 []) example_fs (example_args [''no_such_case''] 1)) =
     Inr (example_executor [''no_such_case''] 1) \<and>
   case_category ''no_such_case'' = Inl (KeyError ''no_such_case'')"
  using example_init [of 1 10 "[]" "[''no_such_case'']"] no_such_case
  by (simp add: resolve_jobs_def case_category_def)

theorem unknown_case_deferred_witness:
  "snd (Executor_init (host 10 []) example_fs (example_args [''bd_curved_beam'', ''no_such_case''] 2)) =
     Inr (example_executor [''bd_curved_beam'', ''no_such_case''] 2) \<and>
   run (host 10 []) (example_executor [''bd_curved_beam'', ''no_such_case''] 2) example_fs =
     (Inl (KeyError ''no_such_case''), example_fs)"
proof -
  let ?ex = "example_executor [''bd_curved_beam'', ''no_such_case''] 2"
  have c: "case' ?ex = [''bd_curved_beam'', ''no_such_case'']"
    by (simp add: example_executor_def)
  have k: "map_of CASE_MAP ''bd_curved_beam'' = Some Beamdyn"
    using example_category by (simp add: case_category_def split: option.splits)
  have "\<exists>n\<in>set (case' ?ex). map_of CASE_MAP n = None"
    by (simp add: c no_such_case)
  with unknown_case_deferred [of "host 10 []" example_fs "example_args [''bd_curved_beam''] 1"
      "CaseList [''no_such_case'']" ?ex example_fs]
  have "run (host 10 []) ?ex example_fs =
      (Inl (KeyError (hd (filter (\<lambda>n. map_of CASE_MAP n = None) (case' ?ex)))), example_fs)"
    by blast
  then show ?thesis
    using example_init [of 2 10 "[]" "[''bd_curved_beam'', ''no_such_case'']"]
    by (simp add: c k no_such_case resolve_jobs_def)
qed

lemma example_run_eval:
  "(case run (host 10 []) (example_executor [''bd_curved_beam''] 1) example_fs of
      (Inr (ex', Some w), fs2) \<Rightarrow> workers w = 1 \<and> results w = [(0, ''1/1'', ''bd_curved_beam'')]
    | _ \<Rightarrow> False)"
  by code_simp

lemma example_run:
  "\<exists>ex' w fs2. run (host 10 []) (example_executor [''bd_curved_beam''] 1) example_fs =
      (Inr (ex', Some w), fs2) \<and> workers w = 1 \<and> results w = [(0, ''1/1'', ''bd_curved_beam'')]"
proof -
  obtain r fs2 where r: "run (host 10 []) (example_executor [''bd_curved_beam''] 1) example_fs = (r, fs2)"
    by (cases "run (host 10 []) (example_executor [''bd_curved_beam''] 1) example_fs")
  from example_run_eval r obtain ex' d where r': "r = Inr (ex', d)"
    by (cases r) auto
  from example_run_eval r r' obtain w where "d = Some w"
    by (cases d) auto
  with example_run_eval r r' show ?thesis by auto
qed

theorem jobs_bounds_witness:
  "snd (Executor_init (host 10 []) example_fs (example_args [''bd_curved_beam''] (- 1))) =
     Inr (example_executor [''bd_curved_beam''] 1) \<and>
   0 < jobs (example_executor [''bd_curved_beam''] 1) \<and>
   jobs (example_executor [''bd_curved_beam''] 1) \<le> 10 \<and>
   jobs (example_executor [''bd_curved_beam''] 1) \<le> 1 \<and>
   (\<exists>ex' w fs2. run (host 10 []) (example_executor [''bd_curved_beam''] 1) example_fs =
      (Inr (ex', Some w), fs2) \<and> int (workers w) = jobs (example_executor [''bd_curved_beam''] 1))"
proof -
  let ?a = "example_args [''bd_curved_beam''] (- 1)"
  let ?ex = "example_executor [''bd_curved_beam''] 1"
  have ok: "snd (Executor_init (host 10 []) example_fs ?a) = Inr ?ex"
    using example_init [of "- 1" 10 "[]" "[''bd_curved_beam'']"]
    by (simp add: resolve_jobs_def default_jobs_eq)
  have ne: "expand_case (case_arg ?a) \<noteq> []"
    by (simp add: example_args_def expand_case_def)
  have cpu: "0 < cpu_count (host 10 [])"
    by (simp add: example_validators)
  from jobs_bounds [OF ok ne cpu] example_run ok
  show ?thesis
    by (auto simp: example_validators example_executor_def)
qed

lemma linear_references:
  "build_directory_references (example_executor [''5MW_Land_BD_Linear''] 1) =
     Inr (example_references [''5MW_Land_BD_Linear''] 1)"
  by code_simp

text \<open>
  C10. Over the plan of the one linear case \<open>5MW_Land_BD_Linear\<close>, with its directory
  references built, \<open>read_out_files\<close> raises \<open>TypeError\<close> where it calls the handler of
  the linear category, and returns no lists.
\<close>

theorem read_out_files_linear_raises:
  "build_directory_references (example_executor [''5MW_Land_BD_Linear''] 1) =
     Inr (example_references [''5MW_Land_BD_Linear''] 1) \<and>
   read_out_files (host 10 []) results_fs (example_references [''5MW_Land_BD_Linear''] 1) =
     Inl (TypeError ''_get_linear_out_files() takes 0 positional arguments but 3 were given'')"
proof -
  have "read_out_files (host 10 []) results_fs (example_references [''5MW_Land_BD_Linear''] 1) =
     Inl (TypeError ''_get_linear_out_files() takes 0 positional arguments but 3 were given'')"
    by code_simp
  with linear_references show ?thesis by simp
qed






lemma empty_plan_run:
  "fst (run (host 10 []) (example_executor [] 0) example_fs) =
     Inl (ValueError ''Number of processes must be at least 1'')"
  by code_simp

text \<open>
  Against C3 as stated: the construction over the empty plan succeeds with a job count
  of zero, and the dispatch of \<open>run\<close> raises \<open>ValueError\<close> where it creates a pool of
  zero workers, so it produces no list of results.
\<close>

theorem dispatch_complete_counterexample:
  "snd (Executor_init (host 10 []) example_fs (example_args [] (- 1))) = Inr (example_executor [] 0) \<and>
   fst (run (host 10 []) (example_executor [] 0) example_fs) =
     Inl (ValueError ''Number of processes must be at least 1'')"
  using example_init [of "- 1" 10 "[]" "[]"] empty_plan_run
  by (simp add: resolve_jobs_def default_jobs_eq)

lemma example_dispatch_eval:
  "run_openfast_cases (host 10 [(''AOC_WSt'', 3)]) (example_references [''AOC_WSt'', ''bd_curved_beam''] 2) =
     Inr \<lparr> workers = 2,
           results = [(3, ''1/2'', ''AOC_WSt''), (0, ''2/2'', ''bd_curved_beam'')],
           printed = [[CHR 0x0A, CHR 0x0A] @ ''    1/2 test cases passed'',
                      [CHR 0x0A] @ ''    Failed cases:'' @ [CHR 0x0A] @ ''       1: AOC_WSt''] \<rparr>"
  by code_simp

lemma example_materialize_eval:
  "(case build_test_output_directories (host 10 [(''AOC_WSt'', 3)])
           (example_references [''AOC_WSt'', ''bd_curved_beam''] 2) example_fs of
      Done fs2 \<Rightarrow> True | Raised err fs2 \<Rightarrow> False)"
  by code_simp

lemma example_references_Inr:
  "build_directory_references (example_executor [''AOC_WSt'', ''bd_curved_beam''] 2) =
     Inr (example_references [''AOC_WSt'', ''bd_curved_beam''] 2)"
  by code_simp

lemma empty_references_Inr:
  "build_directory_references (example_executor [] 0) = Inr (example_references [] 0)"
  by code_simp

lemma example_run_raises:
  "1 < length (case' (example_executor [''AOC_WSt'', ''bd_curved_beam''] 2)) \<and>
   run_single_case (failing_host 10 ''bd_curved_beam'') (example_references [''AOC_WSt'', ''bd_curved_beam''] 2)
     (ordinals (length (case' (example_executor [''AOC_WSt'', ''bd_curved_beam''] 2))) ! 1,
      case' (example_executor [''AOC_WSt'', ''bd_curved_beam''] 2) ! 1,
      build (example_executor [''AOC_WSt'', ''bd_curved_beam''] 2) @
        [''local_results'', case' (example_executor [''AOC_WSt'', ''bd_curved_beam''] 2) ! 1]) =
   Inl (HelperError ''run failed'')"
  by code_simp

theorem dispatch_complete_witness:
  "snd (Executor_init (host 10 [(''AOC_WSt'', 3)]) example_fs
          (example_args [''AOC_WSt'', ''bd_curved_beam''] (- 1))) =
     Inr (example_executor [''AOC_WSt'', ''bd_curved_beam''] 2) \<and>
   run_openfast_cases (host 10 [(''AOC_WSt'', 3)]) (example_references [''AOC_WSt'', ''bd_curved_beam''] 2) =
     Inr \<lparr> workers = 2,
           results = [(3, ''1/2'', ''AOC_WSt''), (0, ''2/2'', ''bd_curved_beam'')],
           printed = [[CHR 0x0A, CHR 0x0A] @ ''    1/2 test cases passed'',
                      [CHR 0x0A] @ ''    Failed cases:'' @ [CHR 0x0A] @ ''       1: AOC_WSt''] \<rparr> \<and>
   (\<exists>fs2. run (host 10 [(''AOC_WSt'', 3)]) (example_executor [''AOC_WSt'', ''bd_curved_beam''] 2) example_fs =
      (Inr (example_references [''AOC_WSt'', ''bd_curved_beam''] 2,
            Some \<lparr> workers = 2,
                   results = [(3, ''1/2'', ''AOC_WSt''), (0, ''2/2'', ''bd_curved_beam'')],
                   printed = [[CHR 0x0A, CHR 0x0A] @ ''    1/2 test cases passed'',
                              [CHR 0x0A] @ ''    Failed cases:'' @ [CHR 0x0A] @ ''       1: AOC_WSt''] \<rparr>),
       fs2)) \<and>
   snd (Executor_init (failing_host 10 ''bd_curved_beam'') example_fs
          (example_args [''AOC_WSt'', ''bd_curved_beam''] (- 1))) =
     Inr (example_executor [''AOC_WSt'', ''bd_curved_beam''] 2) \<and>
   (\<exists>err. run_openfast_cases (failing_host 10 ''bd_curved_beam'')
            (example_references [''AOC_WSt'', ''bd_curved_beam''] 2) = Inl err) \<and>
   snd (Executor_init (host 4 []) example_fs (example_args [] 3)) = Inr (example_executor [] 0) \<and>
   run_openfast_cases (host 4 []) (example_references [] 0) =
     Inl (ValueError ''Number of processes must be at least 1'')"
proof -
  let ?e = "host 10 [(''AOC_WSt'', 3)]"
  let ?cs = "[''AOC_WSt'', ''bd_curved_beam'']"
  let ?a = "example_args ?cs (- 1)"
  let ?ex = "example_executor ?cs 2"
  let ?ex' = "example_references ?cs 2"
  have ok: "snd (Executor_init ?e example_fs ?a) = Inr ?ex"
    using example_init [of "- 1" 10 "[(''AOC_WSt'', 3)]" ?cs]
    by (simp add: resolve_jobs_def default_jobs_eq)
  have ne: "expand_case (case_arg ?a) \<noteq> []"
    by (simp add: example_args_def expand_case_def)
  have cpu: "0 < cpu_count ?e"
    by (simp add: example_validators)
  have codes: "\<forall>exe inp ix c v b. \<exists>k. run_openfast_case ?e exe inp ix c v b = Inr k"
    by (simp add: host_def split: option.splits)
  have ex: "execution ?ex" by (simp add: example_executor_def)
  obtain fs2 where m: "build_test_output_directories ?e ?ex' example_fs = Done fs2"
    using example_materialize_eval
    by (cases "build_test_output_directories ?e ?ex' example_fs") simp_all
  from dispatch_complete [OF ok example_references_Inr] ne cpu codes obtain d
    where d: "run_openfast_cases ?e ?ex' = Inr d"
      and r: "\<forall>fs1 fs2. execution ?ex \<and> build_test_output_directories ?e ?ex' fs1 = Done fs2 \<longrightarrow>
                run ?e ?ex fs1 = (Inr (?ex', Some d), fs2)"
    by blast
  from r ex m have "run ?e ?ex example_fs = (Inr (?ex', Some d), fs2)" by blast
  with d example_dispatch_eval ok have returning:
    "snd (Executor_init ?e example_fs ?a) = Inr ?ex \<and>
     run_openfast_cases ?e ?ex' =
       Inr \<lparr> workers = 2,
             results = [(3, ''1/2'', ''AOC_WSt''), (0, ''2/2'', ''bd_curved_beam'')],
             printed = [[CHR 0x0A, CHR 0x0A] @ ''    1/2 test cases passed'',
                        [CHR 0x0A] @ ''    Failed cases:'' @ [CHR 0x0A] @ ''       1: AOC_WSt''] \<rparr> \<and>
     (\<exists>fs2. run ?e ?ex example_fs =
        (Inr (?ex',
              Some \<lparr> workers = 2,
                     results = [(3, ''1/2'', ''AOC_WSt''), (0, ''2/2'', ''bd_curved_beam'')],
                     printed = [[CHR 0x0A, CHR 0x0A] @ ''    1/2 test cases passed'',
                                [CHR 0x0A] @ ''    Failed cases:'' @ [CHR 0x0A] @ ''       1: AOC_WSt''] \<rparr>),
         fs2))"
    by auto
  let ?f = "failing_host 10 ''bd_curved_beam''"
  have okf: "snd (Executor_init ?f example_fs ?a) = Inr ?ex"
    using example_init [of "- 1" 10 "[]" ?cs]
    by (simp add: failing_host_def Executor_init_run_independent resolve_jobs_def default_jobs_eq)
  have "\<exists>i<length (case' ?ex). \<exists>err.
      run_single_case ?f ?ex'
        (ordinals (length (case' ?ex)) ! i, case' ?ex ! i, build ?ex @ [''local_results'', case' ?ex ! i]) =
      Inl err"
    using example_run_raises by blast
  with dispatch_complete [OF okf example_references_Inr]
  have raising: "\<exists>err. run_openfast_cases ?f ?ex' = Inl err"
    by blast
  have ok0: "snd (Executor_init (host 4 []) example_fs (example_args [] 3)) = Inr (example_executor [] 0)"
    using example_init [of 3 4 "[]" "[]"]
    by (simp add: resolve_jobs_def)
  have "expand_case (case_arg (example_args [] 3)) = []"
    by (simp add: example_args_def expand_case_def)
  with dispatch_complete [OF ok0 empty_references_Inr]
  have empty: "run_openfast_cases (host 4 []) (example_references [] 0) =
     Inl (ValueError ''Number of processes must be at least 1'')"
    by blast
  from returning okf raising ok0 empty show ?thesis
    by (intro conjI) (simp_all only: simp_thms)
qed

end
